theory Spec2Isabelle
  imports Main
begin

section \<open>Shared data model\<close>

text \<open>
  The annotation, label and finalizer keys of package \<^verbatim>\<open>constants\<close>. The package is not
  among the sources, so the keys stay symbolic: one constructor per constant the code
  names, and \<open>OtherKey\<close> for every other key a pod may carry.
\<close>

datatype key =
    AnnotationIP
  | AnnotationIPRetain
  | AnnotationIPPool
  | AnnotationIPFamily
  | AnnotationSpecifiedNetwork
  | AnnotationSpecifiedSubnet
  | AnnotationNetworkType
  | AnnotationHandledByWebhook
  | AnnotationCalicoPodIPs
  | LabelSpecifiedNetwork
  | LabelSpecifiedSubnet
  | LabelNetworkType
  | LabelNode
  | LabelPodUID
  | LabelInterfaceName
  | FinalizerIPAllocated
  | OtherKey string

text \<open>
  \<^verbatim>\<open>ipamtypes.IPFamilyMode\<close>, \<^verbatim>\<open>ipamtypes.NetworkType\<close> and \<^verbatim>\<open>networkingv1.IPVersion\<close>
  are string types in Go: beside the named constants any other string is a value.
\<close>

datatype IPFamilyMode = ipamtypes_IPv4 | ipamtypes_IPv6 | ipamtypes_DualStack | OtherFamily string

datatype NetworkType = Underlay | Overlay | GlobalBGP | OtherNetworkType string

datatype IPVersion = networkingv1_IPv4 | networkingv1_IPv6 | OtherVersion string

text \<open>\<^verbatim>\<open>metav1.Time\<close>: the zero time or some instant; \<^verbatim>\<open>*metav1.Time\<close> is an option of it.\<close>

datatype metav1_Time = ZeroTime | Instant int

fun IsZero :: "metav1_Time option \<Rightarrow> bool" where
  "IsZero None = True"
| "IsZero (Some ZeroTime) = True"
| "IsZero (Some (Instant t)) = False"

record Pod =
  pod_Name :: string
  pod_Namespace :: string
  pod_UID :: string
  pod_Annotations :: "key \<rightharpoonup> string"
  pod_Labels :: "key \<rightharpoonup> string"
  pod_Finalizers :: "key list"
  pod_DeletionTimestamp :: "metav1_Time option"
  pod_NodeName :: string

text \<open>Reading a Go map at an absent key gives the empty string.\<close>

definition Annotations :: "Pod \<Rightarrow> key \<Rightarrow> string" where
  "Annotations pod k = (case pod_Annotations pod k of None \<Rightarrow> [] | Some v \<Rightarrow> v)"

definition Labels :: "Pod \<Rightarrow> key \<Rightarrow> string" where
  "Labels pod k = (case pod_Labels pod k of None \<Rightarrow> [] | Some v \<Rightarrow> v)"

text \<open>\<^verbatim>\<open>metav1.HasAnnotation\<close>: the key is present, whatever its value.\<close>

definition HasAnnotation :: "Pod \<Rightarrow> key \<Rightarrow> bool" where
  "HasAnnotation pod k = (pod_Annotations pod k \<noteq> None)"

text \<open>\<^verbatim>\<open>ipamtypes.IP\<close>, the in-flight result of an engine call: what the code reads of it.\<close>

record IP =
  ip_Address :: string
  ip_Subnet :: string
  ip_Network :: string

text \<open>
  \<^verbatim>\<open>networkingv1.IPInstance\<close> (ipinstance\_types.go), with the fields of its
  \<^verbatim>\<open>Address\<close> that the handlers read.
\<close>

record Address =
  addr_Version :: IPVersion
  addr_IP :: string
  addr_Gateway :: string
  addr_NetID :: "int option"
  addr_MAC :: string

record IPInstance =
  inst_Name :: string
  inst_DeletionTimestamp :: "metav1_Time option"
  spec_Network :: string
  spec_Subnet :: string
  spec_Address :: Address

text \<open>
  Errors are values. An error made by \<^verbatim>\<open>fmt.Errorf\<close> keeps its format string and its
  arguments; an error of a collaborator is opaque.
\<close>

datatype err =
    External string
  | Errorf string "arg list"
and arg =
    AStr string
  | AStrs "string list"
  | AInt int
  | AErr err
  | AFamily IPFamilyMode
  | ANetworkType NetworkType
  | AVersion IPVersion
  | AKey key
  | AIP IP
  | AIPs "IP list"

text \<open>
  Modelled from the spec: \<^verbatim>\<open>wrapError\<close> lives in a file of package \<^verbatim>\<open>networking\<close> that is
  not among the sources. Every call site returns its result as the reconcile error, also
  on success, so it keeps \<^verbatim>\<open>nil\<close> and otherwise wraps the error with the operation
  (\<section>4.2: a wrapped, attributable error).
\<close>

definition wrapError :: "string \<Rightarrow> err option \<Rightarrow> err option" where
  "wrapError msg er = (case er of None \<Rightarrow> None | Some x \<Rightarrow> Some (Errorf ''%s: %v'' [AStr msg, AErr x]))"

text \<open>
  Modelled from the spec: \<^verbatim>\<open>globalutils.PickFirstNonEmptyString\<close> is not among the
  sources; it returns the first of its arguments that is not empty, and the empty string
  when there is none (\<section>4.1: annotation, else label).
\<close>

fun PickFirstNonEmptyString :: "string list \<Rightarrow> string" where
  "PickFirstNonEmptyString [] = []"
| "PickFirstNonEmptyString (s # ss) = (if length s > 0 then s else PickFirstNonEmptyString ss)"

text \<open>Go's \<^verbatim>\<open>strconv.ParseBool\<close>: six spellings of each truth value, an error otherwise.\<close>

definition ParseBool :: "string \<Rightarrow> bool option" where
  "ParseBool s =
     (if s \<in> set [''1'', ''t'', ''T'', ''TRUE'', ''true'', ''True''] then Some True
      else if s \<in> set [''0'', ''f'', ''F'', ''FALSE'', ''false'', ''False''] then Some False
      else None)"

text \<open>
  Modelled from the spec: \<^verbatim>\<open>globalutils.ParseBoolOrDefault\<close> is not among the sources. A
  value that parses as a boolean wins; anything else (also the empty string of an absent
  annotation) gives the default (\<section>4.2: the annotation, when present, overrides the
  cluster default; absence defers to it).
\<close>

definition ParseBoolOrDefault :: "string \<Rightarrow> bool \<Rightarrow> bool" where
  "ParseBoolOrDefault s d = (case ParseBool s of None \<Rightarrow> d | Some b \<Rightarrow> b)"

text \<open>Go's \<^verbatim>\<open>strings.Split\<close> at a one-character separator: never an empty result.\<close>

fun Split :: "string \<Rightarrow> char \<Rightarrow> string list" where
  "Split [] sep = [[]]"
| "Split (c # cs) sep =
     (if c = sep then [] # Split cs sep
      else (case Split cs sep of [] \<Rightarrow> [[c]] | w # ws \<Rightarrow> (c # w) # ws))"


section \<open>The allocation reconciler (package networking, pod controller)\<close>

text \<open>
  The collaborators of \<^verbatim>\<open>PodReconciler\<close>, consumed as contracts (\<section>6): what each call
  answers is a parameter of the model. \<^verbatim>\<open>r.IPAMManager\<close> with its dual-stack variant:
\<close>

record IPAMManager =
  mgr_Allocate :: "string \<Rightarrow> string \<Rightarrow> string \<Rightarrow> string \<Rightarrow> err + IP"
  mgr_Assign :: "string \<Rightarrow> string \<Rightarrow> string \<Rightarrow> string \<Rightarrow> string \<Rightarrow> bool \<Rightarrow> err + IP"
  mgr_Release :: "string \<Rightarrow> string \<Rightarrow> string \<Rightarrow> err option"
  mgr_DualStack_Allocate ::
    "IPFamilyMode \<Rightarrow> string \<Rightarrow> string list \<Rightarrow> string \<Rightarrow> string \<Rightarrow> err + IP list"
  mgr_DualStack_Assign ::
    "IPFamilyMode \<Rightarrow> string \<Rightarrow> string list \<Rightarrow> string list \<Rightarrow> string \<Rightarrow> string \<Rightarrow> bool
       \<Rightarrow> err + IP list"
  mgr_DualStack_Release :: "IPFamilyMode \<Rightarrow> string \<Rightarrow> string list \<Rightarrow> string list \<Rightarrow> err option"

text \<open>\<^verbatim>\<open>r.IPAMStore\<close> with its dual-stack variant:\<close>

record IPAMStore =
  store_Couple :: "Pod \<Rightarrow> IP \<Rightarrow> err option"
  store_ReCouple :: "Pod \<Rightarrow> IP \<Rightarrow> err option"
  store_DeCouple :: "Pod \<Rightarrow> err option"
  store_IPReserve :: "Pod \<Rightarrow> err option"
  store_IPRecycle :: "string \<Rightarrow> IP \<Rightarrow> err option"
  store_DualStack_Couple :: "Pod \<Rightarrow> IP list \<Rightarrow> err option"
  store_DualStack_ReCouple :: "Pod \<Rightarrow> IP list \<Rightarrow> err option"
  store_DualStack_DeCouple :: "Pod \<Rightarrow> err option"
  store_DualStack_IPReserve :: "Pod \<Rightarrow> err option"
  store_DualStack_IPRecycle :: "string \<Rightarrow> IP \<Rightarrow> err option"

text \<open>
  The API server as the reconciler reads and writes it. \<^verbatim>\<open>api_Get\<close> answers
  \<^verbatim>\<open>r.APIReader.Get\<close> (\<open>Inl None\<close> is the not-found error that
  \<^verbatim>\<open>client.IgnoreNotFound\<close> drops); \<^verbatim>\<open>api_Patch\<close> answers \<^verbatim>\<open>r.Patch\<close> under
  \<^verbatim>\<open>retry.RetryOnConflict\<close>, the conflict retries included; the list functions answer
  the helpers of package \<^verbatim>\<open>utils\<close> that list through the client.
\<close>

record API =
  api_Get :: "string \<Rightarrow> string \<Rightarrow> err option + Pod"
  api_Patch :: "Pod \<Rightarrow> err option"
  ListNetworks :: "string \<Rightarrow> err + string list"
  ListAllocatedIPInstancesOfPod :: "Pod \<Rightarrow> err + IPInstance list"
  ListIPsOfPod :: "Pod \<Rightarrow> err + string list"
  GetIPOfPod :: "Pod \<Rightarrow> err + string"

text \<open>
  Package-level state and helpers that are not among the sources: the feature gate, the
  cluster-wide retention default, and pure helper functions of the packages
  \<^verbatim>\<open>strategy\<close>, \<^verbatim>\<open>utils\<close>, \<^verbatim>\<open>types\<close>, \<^verbatim>\<open>globalutils\<close> and \<^verbatim>\<open>transform\<close>.
\<close>

record Globals =
  DualStackEnabled :: bool
  DefaultIPRetain :: bool
  OwnByStatefulWorkload :: "Pod \<Rightarrow> bool"
  PodIsEvicted :: "Pod \<Rightarrow> bool"
  PodIsCompleted :: "Pod \<Rightarrow> bool"
  ParseNetworkTypeFromString :: "string \<Rightarrow> NetworkType"
  ParseIPFamilyFromString :: "string \<Rightarrow> IPFamilyMode"
  GetIndexFromName :: "string \<Rightarrow> nat"
  NormalizedIP :: "string \<Rightarrow> string"
  TransferIPInstancesForIPAM :: "IPInstance list \<Rightarrow> IP list"

record PodReconciler =
  IPAMManager :: IPAMManager
  IPAMStore :: IPAMStore
  Client :: API
  globals :: Globals

text \<open>
  What a run does to its collaborators, in order: one event per call of the engine, the
  store, the API server, the event recorder, the metrics summary and the logger.
\<close>

datatype event =
    APIReader_Get string string
  | Patch Pod
  | Call_ListNetworks string
  | Call_ListAllocatedIPInstancesOfPod Pod
  | Call_ListIPsOfPod Pod
  | Call_GetIPOfPod Pod
  | Manager_Allocate string string string string
  | Manager_Assign string string string string string bool
  | Manager_Release string string string
  | Manager_DualStack_Allocate IPFamilyMode string "string list" string string
  | Manager_DualStack_Assign IPFamilyMode string "string list" "string list" string string bool
  | Manager_DualStack_Release IPFamilyMode string "string list" "string list"
  | Store_Couple Pod IP
  | Store_ReCouple Pod IP
  | Store_DeCouple Pod
  | Store_IPReserve Pod
  | Store_IPRecycle string IP
  | Store_DualStack_Couple Pod "IP list"
  | Store_DualStack_ReCouple Pod "IP list"
  | Store_DualStack_DeCouple Pod
  | Store_DualStack_IPReserve Pod
  | Store_DualStack_IPRecycle string IP
  | Recorder_Event Pod string string string "arg list"
  | Observe string bool
  | Log_Error err

definition ReasonIPAllocationSucceed :: string where "ReasonIPAllocationSucceed = ''IPAllocationSucceed''"
definition ReasonIPAllocationFail :: string where "ReasonIPAllocationFail = ''IPAllocationFail''"
definition ReasonIPReleaseSucceed :: string where "ReasonIPReleaseSucceed = ''IPReleaseSucceed''"
definition ReasonIPReserveSucceed :: string where "ReasonIPReserveSucceed = ''IPReserveSucceed''"
definition OverlayNodeName :: string where "OverlayNodeName = ''c3e6699d28e7''"
definition GlobalBGPNodeName :: string where "GlobalBGPNodeName = ''d7afdca2c149''"
definition EventTypeNormal :: string where "EventTypeNormal = ''Normal''"
definition EventTypeWarning :: string where "EventTypeWarning = ''Warning''"
definition IPNormalAllocateType :: string where "IPNormalAllocateType = ''normal''"
definition IPStatefulAllocateType :: string where "IPStatefulAllocateType = ''stateful''"

text \<open>Sequencing: the events of a first step before those of what follows it.\<close>

definition after :: "event list \<Rightarrow> event list \<times> 'a \<Rightarrow> event list \<times> 'a" where
  "after evs r = (evs @ fst r, snd r)"

fun squashIPSliceToIPs :: "IP list \<Rightarrow> string list" where
  "squashIPSliceToIPs [] = []"
| "squashIPSliceToIPs (ip # ips) = ip_Address ip # squashIPSliceToIPs ips"

fun squashIPSliceToSubnets :: "IP list \<Rightarrow> string list" where
  "squashIPSliceToSubnets [] = []"
| "squashIPSliceToSubnets (ip # ips) = ip_Subnet ip # squashIPSliceToSubnets ips"

subsection \<open>decouple and reserve\<close>

definition decouple :: "PodReconciler \<Rightarrow> Pod \<Rightarrow> event list \<times> err option" where
  "decouple r pod =
     (let (call, res) =
            (if DualStackEnabled (globals r)
             then (Store_DualStack_DeCouple pod, store_DualStack_DeCouple (IPAMStore r) pod)
             else (Store_DeCouple pod, store_DeCouple (IPAMStore r) pod))
      in case res of
           Some er \<Rightarrow>
             ([call],
              Some (Errorf ''unable to decouple ips for pod %s: %v''
                      [AStr (pod_Namespace pod @ ''/'' @ pod_Name pod), AErr er]))
         | None \<Rightarrow>
             ([call,
               Recorder_Event pod EventTypeNormal ReasonIPReleaseSucceed
                 ''pre decouple all IPs successfully'' []],
              None))"

definition reserve :: "PodReconciler \<Rightarrow> Pod \<Rightarrow> event list \<times> err option" where
  "reserve r pod =
     (let (call, res) =
            (if DualStackEnabled (globals r)
             then (Store_DualStack_IPReserve pod, store_DualStack_IPReserve (IPAMStore r) pod)
             else (Store_IPReserve pod, store_IPReserve (IPAMStore r) pod))
      in case res of
           Some er \<Rightarrow> ([call], Some (Errorf ''unable to reserve ips for pod: %v'' [AErr er]))
         | None \<Rightarrow>
             ([call,
               Recorder_Event pod EventTypeNormal ReasonIPReserveSucceed
                 ''reserve all IPs successfully'' []],
              None))"

subsection \<open>selectNetwork\<close>

definition getNetworkByNodeNameIndexer :: "PodReconciler \<Rightarrow> string \<Rightarrow> event list \<times> (err + string)" where
  "getNetworkByNodeNameIndexer r nodeName =
     (case ListNetworks (Client r) nodeName of
        Inl er \<Rightarrow>
          ([Call_ListNetworks nodeName],
           Inl (Errorf ''unable to list network by indexer node name %v: %v'' [AStr nodeName, AErr er]))
      | Inr items \<Rightarrow>
          ([Call_ListNetworks nodeName],
           Inr (case items of [] \<Rightarrow> [] | first # rest \<Rightarrow> first)))"

definition selectNetwork :: "PodReconciler \<Rightarrow> Pod \<Rightarrow> event list \<times> (err + string)" where
  "selectNetwork r pod =
     (let specifiedNetwork =
            PickFirstNonEmptyString
              [Annotations pod AnnotationSpecifiedNetwork, Labels pod LabelSpecifiedNetwork]
      in if length specifiedNetwork > 0 then ([], Inr specifiedNetwork)
         else
           (let networkType =
                  ParseNetworkTypeFromString (globals r)
                    (PickFirstNonEmptyString
                       [Annotations pod AnnotationNetworkType, Labels pod LabelNetworkType])
            in case networkType of
                 Underlay \<Rightarrow>
                   (case getNetworkByNodeNameIndexer r (pod_NodeName pod) of
                      (evs, Inl er) \<Rightarrow>
                        (evs, Inl (Errorf ''unable to get underlay network by node name indexer: %v'' [AErr er]))
                    | (evs, Inr underlayNetworkName) \<Rightarrow>
                        if length underlayNetworkName \<noteq> 0 then (evs, Inr underlayNetworkName)
                        else (evs, Inl (Errorf ''unable to find underlay network for node %s''
                                          [AStr (pod_NodeName pod)])))
               | Overlay \<Rightarrow>
                   (case getNetworkByNodeNameIndexer r OverlayNodeName of
                      (evs, Inl er) \<Rightarrow>
                        (evs, Inl (Errorf ''unable to get overlay network by node name indexer: %v'' [AErr er]))
                    | (evs, Inr overlayNetworkName) \<Rightarrow>
                        if length overlayNetworkName \<noteq> 0 then (evs, Inr overlayNetworkName)
                        else (evs, Inl (Errorf ''unable to find overlay network'' [])))
               | GlobalBGP \<Rightarrow>
                   (case getNetworkByNodeNameIndexer r GlobalBGPNodeName of
                      (evs, Inl er) \<Rightarrow>
                        (evs, Inl (Errorf ''unable to get overlay network by node name indexer: %v'' [AErr er]))
                    | (evs, Inr globalBGPNetworkName) \<Rightarrow>
                        if length globalBGPNetworkName \<noteq> 0 then (evs, Inr globalBGPNetworkName)
                        else (evs, Inl (Errorf ''unable to find global bgp network'' [])))
               | OtherNetworkType t \<Rightarrow>
                   ([], Inl (Errorf ''unknown network type %s from pod'' [ANetworkType networkType]))))"


subsection \<open>release, allocate, assign, multiAssign\<close>

fun release_loop :: "PodReconciler \<Rightarrow> Pod \<Rightarrow> IP list \<Rightarrow> event list \<times> err option" where
  "release_loop r pod [] = ([], None)"
| "release_loop r pod (ip # ips) =
     (let (call, res) =
            (if DualStackEnabled (globals r)
             then (Store_DualStack_IPRecycle (pod_Namespace pod) ip,
                   store_DualStack_IPRecycle (IPAMStore r) (pod_Namespace pod) ip)
             else (Store_IPRecycle (pod_Namespace pod) ip,
                   store_IPRecycle (IPAMStore r) (pod_Namespace pod) ip))
      in case res of
           Some er \<Rightarrow> ([call], Some (Errorf ''unable to recycle ip %v: %v'' [AIP ip, AErr er]))
         | None \<Rightarrow> after [call] (release_loop r pod ips))"

definition release :: "PodReconciler \<Rightarrow> Pod \<Rightarrow> IP list \<Rightarrow> event list \<times> err option" where
  "release r pod allocatedIPs =
     (case release_loop r pod allocatedIPs of
        (evs, Some er) \<Rightarrow> (evs, Some er)
      | (evs, None) \<Rightarrow>
          (evs @ [Recorder_Event pod EventTypeNormal ReasonIPReleaseSucceed
                    ''release IPs %v successfully'' [AStrs (squashIPSliceToIPs allocatedIPs)]],
           None))"

text \<open>
  \<^verbatim>\<open>allocate\<close>. Its deferred functions run when it returns, last registered first: the
  compensating release (registered once the engine call has succeeded), then the latency
  observation. The result of the compensating release is discarded (\<^verbatim>\<open>_ =\<close>).
\<close>

definition allocate :: "PodReconciler \<Rightarrow> Pod \<Rightarrow> string \<Rightarrow> event list \<times> err option" where
  "allocate r pod networkName =
     (let (evs, er) =
        (if DualStackEnabled (globals r) then
           (let ipFamilyMode = ParseIPFamilyFromString (globals r) (Annotations pod AnnotationIPFamily);
                subnetNameStr =
                  PickFirstNonEmptyString
                    [Annotations pod AnnotationSpecifiedSubnet, Labels pod LabelSpecifiedSubnet];
                subnetNames = (if length subnetNameStr > 0 then Split subnetNameStr CHR ''/'' else []);
                call = Manager_DualStack_Allocate ipFamilyMode networkName subnetNames
                         (pod_Name pod) (pod_Namespace pod)
            in case mgr_DualStack_Allocate (IPAMManager r) ipFamilyMode networkName subnetNames
                      (pod_Name pod) (pod_Namespace pod) of
                 Inl x \<Rightarrow> ([call], Some (Errorf ''unable to allocate %s ip: %v'' [AFamily ipFamilyMode, AErr x]))
               | Inr ips \<Rightarrow>
                   (case store_DualStack_Couple (IPAMStore r) pod ips of
                      Some x \<Rightarrow>
                        ([call, Store_DualStack_Couple pod ips,
                          Manager_DualStack_Release ipFamilyMode networkName
                            (squashIPSliceToSubnets ips) (squashIPSliceToIPs ips)],
                         Some (Errorf ''unable to couple IPs with pod: %v'' [AErr x]))
                    | None \<Rightarrow>
                        ([call, Store_DualStack_Couple pod ips,
                          Recorder_Event pod EventTypeNormal ReasonIPAllocationSucceed
                            ''allocate IPs %v successfully'' [AStrs (squashIPSliceToIPs ips)]],
                         None)))
         else
           (let subnetName =
                  PickFirstNonEmptyString
                    [Annotations pod AnnotationSpecifiedSubnet, Labels pod LabelSpecifiedSubnet];
                call = Manager_Allocate networkName subnetName (pod_Name pod) (pod_Namespace pod)
            in case mgr_Allocate (IPAMManager r) networkName subnetName (pod_Name pod) (pod_Namespace pod) of
                 Inl x \<Rightarrow> ([call], Some (Errorf ''unable to allocate ip: %v'' [AErr x]))
               | Inr ip \<Rightarrow>
                   (case store_Couple (IPAMStore r) pod ip of
                      Some x \<Rightarrow>
                        ([call, Store_Couple pod ip,
                          Manager_Release (ip_Network ip) (ip_Subnet ip) (ip_Address ip)],
                         Some (Errorf ''unable to couple ip with pod: %v'' [AErr x]))
                    | None \<Rightarrow>
                        ([call, Store_Couple pod ip,
                          Recorder_Event pod EventTypeNormal ReasonIPAllocationSucceed
                            ''allocate IP %s successfully'' [AIP ip]],
                         None))))
      in (evs @ [Observe IPNormalAllocateType (er = None)], er))"

definition assign :: "PodReconciler \<Rightarrow> Pod \<Rightarrow> string \<Rightarrow> string \<Rightarrow> bool \<Rightarrow> event list \<times> err option" where
  "assign r pod networkName ipCandidate forced =
     (let call = Manager_Assign networkName [] (pod_Name pod) (pod_Namespace pod) ipCandidate forced
      in case mgr_Assign (IPAMManager r) networkName [] (pod_Name pod) (pod_Namespace pod)
                ipCandidate forced of
           Inl x \<Rightarrow> ([call], Some x)
         | Inr ip \<Rightarrow>
             (case store_ReCouple (IPAMStore r) pod ip of
                Some x \<Rightarrow>
                  ([call, Store_ReCouple pod ip,
                    Manager_Release (ip_Network ip) (ip_Subnet ip) (ip_Address ip)],
                   Some (Errorf ''unable to force-couple ip with pod: %v'' [AErr x]))
              | None \<Rightarrow>
                  ([call, Store_ReCouple pod ip,
                    Recorder_Event pod EventTypeNormal ReasonIPAllocationSucceed
                      ''assign IP %s successfully'' [AIP ip]],
                   None)))"

definition multiAssign ::
  "PodReconciler \<Rightarrow> Pod \<Rightarrow> string \<Rightarrow> IPFamilyMode \<Rightarrow> string list \<Rightarrow> bool \<Rightarrow> event list \<times> err option"
where
  "multiAssign r pod networkName ipFamily ipCandidates forced =
     (let call = Manager_DualStack_Assign ipFamily networkName [] ipCandidates
                   (pod_Name pod) (pod_Namespace pod) forced
      in case mgr_DualStack_Assign (IPAMManager r) ipFamily networkName [] ipCandidates
                (pod_Name pod) (pod_Namespace pod) forced of
           Inl x \<Rightarrow> ([call], Some x)
         | Inr IPs \<Rightarrow>
             (case store_DualStack_ReCouple (IPAMStore r) pod IPs of
                Some x \<Rightarrow>
                  ([call, Store_DualStack_ReCouple pod IPs,
                    Manager_DualStack_Release ipFamily networkName
                      (squashIPSliceToSubnets IPs) (squashIPSliceToIPs IPs)],
                   Some (Errorf ''fail to force-couple ips %+v with pod: %v'' [AIPs IPs, AErr x]))
              | None \<Rightarrow>
                  ([call, Store_DualStack_ReCouple pod IPs,
                    Recorder_Event pod EventTypeNormal ReasonIPAllocationSucceed
                      ''assign IPs %v successfully'' [AStrs (squashIPSliceToIPs IPs)]],
                   None)))"

subsection \<open>Finalizers\<close>

text \<open>
  Both functions change the finalizers of the pod object they are given and send the
  change as a patch; the pod as changed is returned beside the events and the error.
\<close>

definition addFinalizer :: "PodReconciler \<Rightarrow> Pod \<Rightarrow> event list \<times> Pod \<times> err option" where
  "addFinalizer r pod =
     (if FinalizerIPAllocated \<in> set (pod_Finalizers pod) then ([], pod, None)
      else
        (let pod' = pod\<lparr>pod_Finalizers := pod_Finalizers pod @ [FinalizerIPAllocated]\<rparr>
         in ([Patch pod'], pod', api_Patch (Client r) pod')))"

definition removeFinalizer :: "PodReconciler \<Rightarrow> Pod \<Rightarrow> event list \<times> Pod \<times> err option" where
  "removeFinalizer r pod =
     (if FinalizerIPAllocated \<notin> set (pod_Finalizers pod) then ([], pod, None)
      else
        (let pod' = pod\<lparr>pod_Finalizers := filter (\<lambda>f. f \<noteq> FinalizerIPAllocated) (pod_Finalizers pod)\<rparr>
         in ([Patch pod'], pod', api_Patch (Client r) pod')))"


subsection \<open>statefulAllocate\<close>

text \<open>The local variable \<^verbatim>\<open>shouldReallocate\<close> of \<^verbatim>\<open>statefulAllocate\<close>.\<close>

definition shouldReallocate :: "PodReconciler \<Rightarrow> Pod \<Rightarrow> bool" where
  "shouldReallocate r pod =
     (\<not> ParseBoolOrDefault (Annotations pod AnnotationIPRetain) (DefaultIPRetain (globals r)))"

text \<open>
  The arm \<^verbatim>\<open>case shouldReallocate\<close>, the same text in the dual-stack and in the
  single-stack switch: recycle what the pod holds, then allocate afresh.
\<close>

definition statefulAllocate_reallocate ::
  "PodReconciler \<Rightarrow> Pod \<Rightarrow> string \<Rightarrow> event list \<times> err option" where
  "statefulAllocate_reallocate r pod networkName =
     (case ListAllocatedIPInstancesOfPod (Client r) pod of
        Inl x \<Rightarrow> ([Call_ListAllocatedIPInstancesOfPod pod], Some x)
      | Inr allocatedIPs \<Rightarrow>
          after [Call_ListAllocatedIPInstancesOfPod pod]
            (if length allocatedIPs > 0 then
               (case release r pod (TransferIPInstancesForIPAM (globals r) allocatedIPs) of
                  (evs, Some x) \<Rightarrow> (evs, wrapError ''unable to release before reallocate'' (Some x))
                | (evs, None) \<Rightarrow>
                    after evs
                      (case allocate r pod networkName of
                         (evs', res) \<Rightarrow> (evs', wrapError ''unable to reallocate'' res)))
             else
               (case allocate r pod networkName of
                  (evs', res) \<Rightarrow> (evs', wrapError ''unable to reallocate'' res))))"

text \<open>
  The body of \<^verbatim>\<open>statefulAllocate\<close> after the finalizer is in place, given the values of
  its local variables \<^verbatim>\<open>preAssign\<close> and \<^verbatim>\<open>shouldReallocate\<close>: the events, the error and
  the final value of \<^verbatim>\<open>shouldObserve\<close>.
\<close>

definition statefulAllocate_switch ::
  "PodReconciler \<Rightarrow> Pod \<Rightarrow> string \<Rightarrow> bool \<Rightarrow> bool \<Rightarrow> event list \<times> err option \<times> bool" where
  "statefulAllocate_switch r pod networkName preAssign reallocate =
     (if DualStackEnabled (globals r) then
        (let ipFamilyMode = ParseIPFamilyFromString (globals r) (Annotations pod AnnotationIPFamily) in
         if preAssign then
           (let ipPool = Split (Annotations pod AnnotationIPPool) CHR '','';
                idx = GetIndexFromName (globals r) (pod_Name pod)
            in if idx < length ipPool then
                 (let ipCandidates = map (NormalizedIP (globals r)) (Split (ipPool ! idx) CHR ''/'')
                  in case multiAssign r pod networkName ipFamilyMode ipCandidates True of
                       (evs, res) \<Rightarrow> (evs, wrapError ''unable to multi-assign'' res, True))
               else
                 ([], Some (Errorf ''no available ip in ip-pool %s'' [AStr (Annotations pod AnnotationIPPool)]),
                  True))
         else if reallocate then
           (case statefulAllocate_reallocate r pod networkName of (evs, res) \<Rightarrow> (evs, res, True))
         else
           (case ListIPsOfPod (Client r) pod of
              Inl x \<Rightarrow> ([Call_ListIPsOfPod pod], Some x, True)
            | Inr ipCandidates \<Rightarrow>
                if length ipCandidates = 0 then
                  (case allocate r pod networkName of
                     (evs, res) \<Rightarrow> (Call_ListIPsOfPod pod # evs, wrapError ''unable to allocate'' res, False))
                else
                  (case multiAssign r pod networkName ipFamilyMode ipCandidates True of
                     (evs, res) \<Rightarrow>
                       (Call_ListIPsOfPod pod # evs, wrapError ''unable to multi-assign'' res, True))))
      else
        (if preAssign then
           (let ipPool = Split (Annotations pod AnnotationIPPool) CHR '','';
                idx = GetIndexFromName (globals r) (pod_Name pod);
                ipCandidate = (if idx < length ipPool then NormalizedIP (globals r) (ipPool ! idx) else [])
            in if length ipCandidate = 0 then
                 ([], Some (Errorf ''no available ip in ip-pool %s'' [AStr (Annotations pod AnnotationIPPool)]),
                  True)
               else
                 (case assign r pod networkName ipCandidate True of
                    (evs, res) \<Rightarrow> (evs, wrapError ''unable to assign'' res, True)))
         else if reallocate then
           (case statefulAllocate_reallocate r pod networkName of (evs, res) \<Rightarrow> (evs, res, True))
         else
           (case GetIPOfPod (Client r) pod of
              Inl x \<Rightarrow> ([Call_GetIPOfPod pod], Some x, True)
            | Inr ipCandidate \<Rightarrow>
                if length ipCandidate = 0 then
                  (case allocate r pod networkName of
                     (evs, res) \<Rightarrow> (Call_GetIPOfPod pod # evs, wrapError ''unable to allocate'' res, False))
                else
                  (case assign r pod networkName ipCandidate True of
                     (evs, res) \<Rightarrow> (Call_GetIPOfPod pod # evs, wrapError ''unable to assign'' res, True)))))"

text \<open>
  \<^verbatim>\<open>statefulAllocate\<close>: the finalizer first, then the switch; the deferred observation
  runs last, unless the switch has turned \<^verbatim>\<open>shouldObserve\<close> off. The retention decision
  is read from the pod before the finalizer is added.
\<close>

definition statefulAllocate ::
  "PodReconciler \<Rightarrow> Pod \<Rightarrow> string \<Rightarrow> event list \<times> Pod \<times> err option" where
  "statefulAllocate r pod networkName =
     (let preAssign = length (Annotations pod AnnotationIPPool) > 0;
          reallocate = shouldReallocate r pod
      in case addFinalizer r pod of
           (evs, pod', Some x) \<Rightarrow>
             (let res = wrapError ''unable to add finalizer for stateful pod'' (Some x)
              in (evs @ [Observe IPStatefulAllocateType (res = None)], pod', res))
         | (evs, pod', None) \<Rightarrow>
             (case statefulAllocate_switch r pod' networkName preAssign reallocate of
                (evs', res, shouldObserve) \<Rightarrow>
                  (evs @ evs' @ (if shouldObserve then [Observe IPStatefulAllocateType (res = None)] else []),
                   pod', res)))"

subsection \<open>Reconcile\<close>

text \<open>What \<^verbatim>\<open>Reconcile\<close> does with the pod it has fetched, before its deferred function.\<close>

definition Reconcile_pod :: "PodReconciler \<Rightarrow> Pod \<Rightarrow> event list \<times> Pod \<times> err option" where
  "Reconcile_pod r pod =
     (if pod_DeletionTimestamp pod \<noteq> None then
        (if OwnByStatefulWorkload (globals r) pod then
           (case reserve r pod of
              (evs, Some x) \<Rightarrow> (evs, pod, wrapError ''unable to reserve pod'' (Some x))
            | (evs, None) \<Rightarrow>
                (case removeFinalizer r pod of
                   (evs', pod', res) \<Rightarrow> (evs @ evs', pod', wrapError ''unable to remote finalizer'' res)))
         else ([], pod, None))
      else if PodIsEvicted (globals r) pod \<or> PodIsCompleted (globals r) pod then
        (case decouple r pod of (evs, res) \<Rightarrow> (evs, pod, wrapError ''unable to decouple pod'' res))
      else if HasAnnotation pod AnnotationIP then ([], pod, None)
      else
        (case selectNetwork r pod of
           (evs, Inl x) \<Rightarrow> (evs, pod, Some (Errorf ''unable to select network: %v'' [AErr x]))
         | (evs, Inr networkName) \<Rightarrow>
             if OwnByStatefulWorkload (globals r) pod then
               (case statefulAllocate r pod networkName of
                  (evs', pod', res) \<Rightarrow> (evs @ evs', pod', wrapError ''unable to stateful allocate'' res))
             else
               (case allocate r pod networkName of
                  (evs', res) \<Rightarrow> (evs @ evs', pod, wrapError ''unable to allocate'' res))))"

text \<open>
  The deferred function of \<^verbatim>\<open>Reconcile\<close>: it logs a returned error and records a
  warning on the pod when the pod was fetched (its UID is not empty).
\<close>

definition Reconcile_defer :: "Pod \<Rightarrow> err option \<Rightarrow> event list" where
  "Reconcile_defer pod er =
     (case er of
        None \<Rightarrow> []
      | Some e \<Rightarrow>
          Log_Error e #
          (if length (pod_UID pod) > 0
           then [Recorder_Event pod EventTypeWarning ReasonIPAllocationFail ''%v'' [AErr e]]
           else []))"

text \<open>
  \<^verbatim>\<open>Reconcile\<close> for the request \<open>(namespace, name)\<close>: the events and the returned error
  (the returned \<^verbatim>\<open>ctrl.Result\<close> is always empty). When the fetch fails the pod object is
  still empty, so the deferred function only logs.
\<close>

definition Reconcile :: "PodReconciler \<Rightarrow> string \<Rightarrow> string \<Rightarrow> event list \<times> err option" where
  "Reconcile r namespace name =
     (case api_Get (Client r) namespace name of
        Inl None \<Rightarrow> ([APIReader_Get namespace name], None)
      | Inl (Some x) \<Rightarrow>
          (let e = Errorf ''unable to fetch Pod: %v'' [AErr x]
           in ([APIReader_Get namespace name, Log_Error e], Some e))
      | Inr pod \<Rightarrow>
          (case Reconcile_pod r pod of
             (evs, pod', res) \<Rightarrow> (APIReader_Get namespace name # evs @ Reconcile_defer pod' res, res)))"

text \<open>Kinds of events.\<close>

fun is_engine_call :: "event \<Rightarrow> bool" where
  "is_engine_call (Manager_Allocate a b c d) = True"
| "is_engine_call (Manager_Assign a b c d e f) = True"
| "is_engine_call (Manager_Release a b c) = True"
| "is_engine_call (Manager_DualStack_Allocate a b c d e) = True"
| "is_engine_call (Manager_DualStack_Assign a b c d e f g) = True"
| "is_engine_call (Manager_DualStack_Release a b c d) = True"
| "is_engine_call ev = False"

fun is_store_call :: "event \<Rightarrow> bool" where
  "is_store_call (Store_Couple p i) = True"
| "is_store_call (Store_ReCouple p i) = True"
| "is_store_call (Store_DeCouple p) = True"
| "is_store_call (Store_IPReserve p) = True"
| "is_store_call (Store_IPRecycle n i) = True"
| "is_store_call (Store_DualStack_Couple p i) = True"
| "is_store_call (Store_DualStack_ReCouple p i) = True"
| "is_store_call (Store_DualStack_DeCouple p) = True"
| "is_store_call (Store_DualStack_IPReserve p) = True"
| "is_store_call (Store_DualStack_IPRecycle n i) = True"
| "is_store_call ev = False"

fun is_assign :: "event \<Rightarrow> bool" where
  "is_assign (Manager_Assign a b c d e f) = True"
| "is_assign (Manager_DualStack_Assign a b c d e f g) = True"
| "is_assign ev = False"

fun is_recycle :: "event \<Rightarrow> bool" where
  "is_recycle (Store_IPRecycle n i) = True"
| "is_recycle (Store_DualStack_IPRecycle n i) = True"
| "is_recycle ev = False"

fun is_list_networks :: "event \<Rightarrow> bool" where
  "is_list_networks (Call_ListNetworks n) = True"
| "is_list_networks ev = False"

subsection \<open>A concrete reconciler, for the examples\<close>

definition example_ip4 :: IP where
  "example_ip4 = \<lparr>ip_Address = ''10.0.0.5'', ip_Subnet = ''subnet4'', ip_Network = ''ov1''\<rparr>"

definition example_ip6 :: IP where
  "example_ip6 = \<lparr>ip_Address = ''fd00::5'', ip_Subnet = ''subnet6'', ip_Network = ''ov1''\<rparr>"

text \<open>An engine whose allocations succeed and whose releases fail.\<close>

definition example_manager :: IPAMManager where
  "example_manager =
     \<lparr>mgr_Allocate = (\<lambda>networkName subnetName podName podNamespace. Inr example_ip4),
      mgr_Assign = (\<lambda>networkName subnetName podName podNamespace ip forced. Inr example_ip4),
      mgr_Release = (\<lambda>networkName subnetName ip. Some (External ''release failed'')),
      mgr_DualStack_Allocate =
        (\<lambda>family networkName subnetNames podName podNamespace. Inr [example_ip4, example_ip6]),
      mgr_DualStack_Assign =
        (\<lambda>family networkName subnetNames ips podName podNamespace forced. Inr [example_ip4, example_ip6]),
      mgr_DualStack_Release =
        (\<lambda>family networkName subnetNames ips. Some (External ''release failed''))\<rparr>"

text \<open>A store whose calls succeed, and one whose coupling and reservation fail.\<close>

definition example_store :: IPAMStore where
  "example_store =
     \<lparr>store_Couple = (\<lambda>pod ip. None),
      store_ReCouple = (\<lambda>pod ip. None),
      store_DeCouple = (\<lambda>pod. None),
      store_IPReserve = (\<lambda>pod. None),
      store_IPRecycle = (\<lambda>namespace ip. None),
      store_DualStack_Couple = (\<lambda>pod ips. None),
      store_DualStack_ReCouple = (\<lambda>pod ips. None),
      store_DualStack_DeCouple = (\<lambda>pod. None),
      store_DualStack_IPReserve = (\<lambda>pod. None),
      store_DualStack_IPRecycle = (\<lambda>namespace ip. None)\<rparr>"

definition example_failing_store :: IPAMStore where
  "example_failing_store =
     example_store
       \<lparr>store_Couple := (\<lambda>pod ip. Some (External ''conflict'')),
        store_DualStack_Couple := (\<lambda>pod ips. Some (External ''conflict'')),
        store_IPReserve := (\<lambda>pod. Some (External ''conflict'')),
        store_DualStack_IPReserve := (\<lambda>pod. Some (External ''conflict''))\<rparr>"

definition example_pod :: Pod where
  "example_pod =
     \<lparr>pod_Name = ''p1-0'', pod_Namespace = ''ns'', pod_UID = ''uid-1'',
      pod_Annotations = Map.empty, pod_Labels = Map.empty, pod_Finalizers = [],
      pod_DeletionTimestamp = None, pod_NodeName = ''node1''\<rparr>"

definition example_api :: "Pod \<Rightarrow> API" where
  "example_api pod =
     \<lparr>api_Get = (\<lambda>namespace name. Inr pod),
      api_Patch = (\<lambda>pod. None),
      ListNetworks = (\<lambda>nodeName. if nodeName = OverlayNodeName then Inr [''ov1''] else Inr []),
      ListAllocatedIPInstancesOfPod = (\<lambda>pod. Inr []),
      ListIPsOfPod = (\<lambda>pod. Inr [''10.0.0.5'']),
      GetIPOfPod = (\<lambda>pod. Inr ''10.0.0.5'')\<rparr>"

definition example_globals :: "bool \<Rightarrow> bool \<Rightarrow> bool \<Rightarrow> Globals" where
  "example_globals dualStack retain stateful =
     \<lparr>DualStackEnabled = dualStack,
      DefaultIPRetain = retain,
      OwnByStatefulWorkload = (\<lambda>pod. stateful),
      PodIsEvicted = (\<lambda>pod. False),
      PodIsCompleted = (\<lambda>pod. False),
      ParseNetworkTypeFromString =
        (\<lambda>s. if s = ''Overlay'' then Overlay else if s = ''GlobalBGP'' then GlobalBGP
             else if s = ''Underlay'' \<or> s = [] then Underlay else OtherNetworkType s),
      ParseIPFamilyFromString =
        (\<lambda>s. if s = ''DualStack'' then ipamtypes_DualStack else if s = ''IPv6'' then ipamtypes_IPv6
             else if s = ''IPv4'' \<or> s = [] then ipamtypes_IPv4 else OtherFamily s),
      GetIndexFromName = (\<lambda>name. 0),
      NormalizedIP = (\<lambda>ip. ip),
      TransferIPInstancesForIPAM =
        map (\<lambda>i. \<lparr>ip_Address = addr_IP (spec_Address i), ip_Subnet = spec_Subnet i,
                    ip_Network = spec_Network i\<rparr>)\<rparr>"

definition example_reconciler :: "IPAMStore \<Rightarrow> Pod \<Rightarrow> bool \<Rightarrow> bool \<Rightarrow> bool \<Rightarrow> PodReconciler" where
  "example_reconciler store pod dualStack retain stateful =
     \<lparr>IPAMManager = example_manager, IPAMStore = store, Client = example_api pod,
      globals = example_globals dualStack retain stateful\<rparr>"

definition example_fenced_pod :: Pod where
  "example_fenced_pod = example_pod\<lparr>pod_Annotations := [AnnotationIP \<mapsto> ''10.0.0.5'']\<rparr>"

definition example_deleting_pod :: Pod where
  "example_deleting_pod =
     example_pod\<lparr>pod_DeletionTimestamp := Some (Instant 1), pod_Finalizers := [FinalizerIPAllocated]\<rparr>"

definition example_retain_pod :: "string \<Rightarrow> Pod" where
  "example_retain_pod v = example_pod\<lparr>pod_Annotations := [AnnotationIPRetain \<mapsto> v]\<rparr>"

section \<open>Properties of the allocation reconciler\<close>

subsection \<open>Helper lemmas\<close>

lemma squashIPSliceToIPs_map: "squashIPSliceToIPs ips = map ip_Address ips"
  by (induction ips) simp_all

lemma squashIPSliceToSubnets_map: "squashIPSliceToSubnets ips = map ip_Subnet ips"
  by (induction ips) simp_all

lemma Reconcile_defer_kinds:
  "e \<in> set (Reconcile_defer pod res) \<Longrightarrow> \<not> is_engine_call e \<and> \<not> is_store_call e"
  by (auto simp: Reconcile_defer_def split: option.splits if_splits)

lemma Reconcile_reserve_fails:
  assumes "api_Get (Client r) namespace name = Inr pod"
    and "pod_DeletionTimestamp pod \<noteq> None"
    and "OwnByStatefulWorkload (globals r) pod"
    and "(if DualStackEnabled (globals r) then store_DualStack_IPReserve (IPAMStore r) pod
          else store_IPReserve (IPAMStore r) pod) = Some x"
    and "e = Errorf ''%s: %v'' [AStr ''unable to reserve pod'',
                 AErr (Errorf ''unable to reserve ips for pod: %v'' [AErr x])]"
  shows "Reconcile r namespace name =
           ([APIReader_Get namespace name,
             if DualStackEnabled (globals r) then Store_DualStack_IPReserve pod else Store_IPReserve pod]
            @ Reconcile_defer pod (Some e), Some e)"
  using assms
  by (cases "DualStackEnabled (globals r)")
     (simp_all add: Reconcile_def Reconcile_pod_def reserve_def wrapError_def)

lemma Reconcile_reserve_succeeds:
  assumes "api_Get (Client r) namespace name = Inr pod"
    and "pod_DeletionTimestamp pod \<noteq> None"
    and "OwnByStatefulWorkload (globals r) pod"
    and "(if DualStackEnabled (globals r) then store_DualStack_IPReserve (IPAMStore r) pod
          else store_IPReserve (IPAMStore r) pod) = None"
    and "pod' = pod\<lparr>pod_Finalizers := filter (\<lambda>f. f \<noteq> FinalizerIPAllocated) (pod_Finalizers pod)\<rparr>"
    and "res = wrapError ''unable to remote finalizer'' (api_Patch (Client r) pod')"
  shows "Reconcile r namespace name =
           (if FinalizerIPAllocated \<in> set (pod_Finalizers pod)
            then ([APIReader_Get namespace name,
                   if DualStackEnabled (globals r) then Store_DualStack_IPReserve pod else Store_IPReserve pod,
                   Recorder_Event pod EventTypeNormal ReasonIPReserveSucceed ''reserve all IPs successfully'' [],
                   Patch pod'] @ Reconcile_defer pod' res, res)
            else ([APIReader_Get namespace name,
                   if DualStackEnabled (globals r) then Store_DualStack_IPReserve pod else Store_IPReserve pod,
                   Recorder_Event pod EventTypeNormal ReasonIPReserveSucceed ''reserve all IPs successfully'' []],
                  None))"
  using assms
  by (cases "DualStackEnabled (globals r)")
     (simp_all add: Reconcile_def Reconcile_pod_def reserve_def removeFinalizer_def Let_def
        wrapError_def Reconcile_defer_def)

lemma Reconcile_deleting_stateless:
  assumes "api_Get (Client r) namespace name = Inr pod"
    and "pod_DeletionTimestamp pod \<noteq> None"
    and "\<not> OwnByStatefulWorkload (globals r) pod"
  shows "Reconcile r namespace name = ([APIReader_Get namespace name], None)"
  using assms by (simp add: Reconcile_def Reconcile_pod_def Reconcile_defer_def)

lemma Reconcile_decouples:
  assumes "api_Get (Client r) namespace name = Inr pod"
    and "pod_DeletionTimestamp pod = None"
    and "PodIsEvicted (globals r) pod \<or> PodIsCompleted (globals r) pod"
    and "dres = (if DualStackEnabled (globals r) then store_DualStack_DeCouple (IPAMStore r) pod
                 else store_DeCouple (IPAMStore r) pod)"
    and "res = wrapError ''unable to decouple pod''
                 (case dres of None \<Rightarrow> None
                  | Some x \<Rightarrow> Some (Errorf ''unable to decouple ips for pod %s: %v''
                                     [AStr (pod_Namespace pod @ ''/'' @ pod_Name pod), AErr x]))"
  shows "Reconcile r namespace name =
           ([APIReader_Get namespace name,
             if DualStackEnabled (globals r) then Store_DualStack_DeCouple pod else Store_DeCouple pod]
            @ (if dres = None
               then [Recorder_Event pod EventTypeNormal ReasonIPReleaseSucceed
                       ''pre decouple all IPs successfully'' []]
               else Reconcile_defer pod res),
            res)"
  using assms
  by (cases "DualStackEnabled (globals r)")
     (auto simp add: Reconcile_def Reconcile_pod_def decouple_def Let_def
        wrapError_def Reconcile_defer_def split: option.splits)


lemma Reconcile_deleting_kinds:
  assumes "api_Get (Client r) namespace name = Inr pod"
    and "pod_DeletionTimestamp pod \<noteq> None"
    and "OwnByStatefulWorkload (globals r) pod"
    and "e \<in> set (fst (Reconcile r namespace name))"
  shows "\<not> is_engine_call e \<and>
         (is_store_call e \<longrightarrow>
            e = (if DualStackEnabled (globals r) then Store_DualStack_IPReserve pod else Store_IPReserve pod))"
proof (cases "if DualStackEnabled (globals r) then store_DualStack_IPReserve (IPAMStore r) pod
              else store_IPReserve (IPAMStore r) pod")
  case None
  from Reconcile_reserve_succeeds [OF assms(1-3) None refl refl] assms(4)
  show ?thesis
    by (auto dest: Reconcile_defer_kinds split: if_splits)
next
  case (Some x)
  from Reconcile_reserve_fails [OF assms(1-3) Some refl] assms(4)
  show ?thesis
    by (auto dest: Reconcile_defer_kinds split: if_splits)
qed

lemma Reconcile_decouple_kinds:
  assumes "api_Get (Client r) namespace name = Inr pod"
    and "pod_DeletionTimestamp pod = None"
    and "PodIsEvicted (globals r) pod \<or> PodIsCompleted (globals r) pod"
    and "e \<in> set (fst (Reconcile r namespace name))"
  shows "\<not> is_engine_call e \<and>
         (is_store_call e \<longrightarrow>
            e = (if DualStackEnabled (globals r) then Store_DualStack_DeCouple pod else Store_DeCouple pod))"
  using Reconcile_decouples [OF assms(1-3) refl refl] assms(4)
  by (auto dest: Reconcile_defer_kinds split: if_splits)


lemma PickFirstNonEmptyString_two: "PickFirstNonEmptyString [a, b] = (if a \<noteq> [] then a else b)"
  by simp

lemma getNetworkByNodeNameIndexer_fst: "fst (getNetworkByNodeNameIndexer r n) = [Call_ListNetworks n]"
  by (simp add: getNetworkByNodeNameIndexer_def split: sum.splits)

lemma getNetworkByNodeNameIndexer_snd:
  "snd (getNetworkByNodeNameIndexer r n) =
     (case ListNetworks (Client r) n of
        Inl x \<Rightarrow> Inl (Errorf ''unable to list network by indexer node name %v: %v'' [AStr n, AErr x])
      | Inr [] \<Rightarrow> Inr []
      | Inr (first # rest) \<Rightarrow> Inr first)"
  by (simp add: getNetworkByNodeNameIndexer_def split: sum.splits list.splits)

lemma selectNetwork_read_only: "e \<in> set (fst (selectNetwork r pod)) \<Longrightarrow> is_list_networks e"
  unfolding selectNetwork_def Let_def
  by (cases "ParseNetworkTypeFromString (globals r)
               (PickFirstNonEmptyString [Annotations pod AnnotationNetworkType, Labels pod LabelNetworkType])";
      cases "getNetworkByNodeNameIndexer r (pod_NodeName pod)";
      cases "getNetworkByNodeNameIndexer r OverlayNodeName";
      cases "getNetworkByNodeNameIndexer r GlobalBGPNodeName")
     (use getNetworkByNodeNameIndexer_fst [of r "pod_NodeName pod"]
          getNetworkByNodeNameIndexer_fst [of r OverlayNodeName]
          getNetworkByNodeNameIndexer_fst [of r GlobalBGPNodeName]
      in \<open>auto simp del: PickFirstNonEmptyString.simps split: if_splits sum.splits\<close>)


lemma selectNetwork_annotation:
  "Annotations pod AnnotationSpecifiedNetwork \<noteq> [] \<Longrightarrow>
   selectNetwork r pod = ([], Inr (Annotations pod AnnotationSpecifiedNetwork))"
  by (simp add: selectNetwork_def)

lemma selectNetwork_label:
  "Annotations pod AnnotationSpecifiedNetwork = [] \<Longrightarrow> Labels pod LabelSpecifiedNetwork \<noteq> [] \<Longrightarrow>
   selectNetwork r pod = ([], Inr (Labels pod LabelSpecifiedNetwork))"
  by (simp add: selectNetwork_def)

lemma selectNetwork_by_type:
  assumes "Annotations pod AnnotationSpecifiedNetwork = []" "Labels pod LabelSpecifiedNetwork = []"
  shows
    "(let networkType =
            ParseNetworkTypeFromString (globals r)
              (PickFirstNonEmptyString [Annotations pod AnnotationNetworkType, Labels pod LabelNetworkType]);
          nodeName = (case networkType of Underlay \<Rightarrow> pod_NodeName pod | Overlay \<Rightarrow> OverlayNodeName
                      | GlobalBGP \<Rightarrow> GlobalBGPNodeName | OtherNetworkType t \<Rightarrow> [])
      in case networkType of
           OtherNetworkType t \<Rightarrow>
             selectNetwork r pod = ([], Inl (Errorf ''unknown network type %s from pod'' [ANetworkType networkType]))
         | _ \<Rightarrow>
             fst (selectNetwork r pod) = [Call_ListNetworks nodeName] \<and>
             (case ListNetworks (Client r) nodeName of
                Inr (n # rest) \<Rightarrow>
                  (if n \<noteq> [] then snd (selectNetwork r pod) = Inr n else isl (snd (selectNetwork r pod)))
              | Inr [] \<Rightarrow> isl (snd (selectNetwork r pod))
              | Inl x \<Rightarrow> isl (snd (selectNetwork r pod))))"
proof -
  have sel: "selectNetwork r pod =
      (case ParseNetworkTypeFromString (globals r)
              (PickFirstNonEmptyString [Annotations pod AnnotationNetworkType, Labels pod LabelNetworkType]) of
         Underlay \<Rightarrow>
           (case getNetworkByNodeNameIndexer r (pod_NodeName pod) of
              (evs, Inl er) \<Rightarrow>
                (evs, Inl (Errorf ''unable to get underlay network by node name indexer: %v'' [AErr er]))
            | (evs, Inr underlayNetworkName) \<Rightarrow>
                if length underlayNetworkName \<noteq> 0 then (evs, Inr underlayNetworkName)
                else (evs, Inl (Errorf ''unable to find underlay network for node %s''
                                  [AStr (pod_NodeName pod)])))
       | Overlay \<Rightarrow>
           (case getNetworkByNodeNameIndexer r OverlayNodeName of
              (evs, Inl er) \<Rightarrow>
                (evs, Inl (Errorf ''unable to get overlay network by node name indexer: %v'' [AErr er]))
            | (evs, Inr overlayNetworkName) \<Rightarrow>
                if length overlayNetworkName \<noteq> 0 then (evs, Inr overlayNetworkName)
                else (evs, Inl (Errorf ''unable to find overlay network'' [])))
       | GlobalBGP \<Rightarrow>
           (case getNetworkByNodeNameIndexer r GlobalBGPNodeName of
              (evs, Inl er) \<Rightarrow>
                (evs, Inl (Errorf ''unable to get overlay network by node name indexer: %v'' [AErr er]))
            | (evs, Inr globalBGPNetworkName) \<Rightarrow>
                if length globalBGPNetworkName \<noteq> 0 then (evs, Inr globalBGPNetworkName)
                else (evs, Inl (Errorf ''unable to find global bgp network'' [])))
       | OtherNetworkType t \<Rightarrow>
           ([], Inl (Errorf ''unknown network type %s from pod''
                      [ANetworkType (ParseNetworkTypeFromString (globals r)
              (PickFirstNonEmptyString [Annotations pod AnnotationNetworkType, Labels pod LabelNetworkType]))])))"
  proof -
    have "PickFirstNonEmptyString [[], []] = []" by simp
    with assms show ?thesis
      by (simp add: selectNetwork_def Let_def del: PickFirstNonEmptyString.simps)
  qed
  show ?thesis
    unfolding sel Let_def
    by (cases "ParseNetworkTypeFromString (globals r)
               (PickFirstNonEmptyString [Annotations pod AnnotationNetworkType, Labels pod LabelNetworkType])")
       (simp_all add: getNetworkByNodeNameIndexer_def split: sum.splits list.splits
          del: PickFirstNonEmptyString.simps)
qed

lemma selectNetwork_no_default:
  assumes "snd (selectNetwork r pod) = Inr n"
  shows "n \<noteq> [] \<and>
         (n = Annotations pod AnnotationSpecifiedNetwork \<or> n = Labels pod LabelSpecifiedNetwork \<or>
          (\<exists>nodeName rest. ListNetworks (Client r) nodeName = Inr (n # rest)))"
proof (cases "Annotations pod AnnotationSpecifiedNetwork = []")
  case False
  with assms selectNetwork_annotation [of pod r] show ?thesis by simp
next
  case a: True
  show ?thesis
  proof (cases "Labels pod LabelSpecifiedNetwork = []")
    case False
    with a assms selectNetwork_label [of pod r] show ?thesis by simp
  next
    case True
    from selectNetwork_by_type [OF a True, of r] assms show ?thesis
      unfolding Let_def
      by (cases "ParseNetworkTypeFromString (globals r)
               (PickFirstNonEmptyString [Annotations pod AnnotationNetworkType, Labels pod LabelNetworkType])")
         (auto split: sum.splits list.splits if_splits simp del: PickFirstNonEmptyString.simps)
  qed
qed

lemma Annotations_Finalizers [simp]: "Annotations (pod\<lparr>pod_Finalizers := f\<rparr>) k = Annotations pod k"
  by (simp add: Annotations_def)

lemma shouldReallocate_absent:
  "pod_Annotations pod AnnotationIPRetain = None \<Longrightarrow> shouldReallocate r pod = (\<not> DefaultIPRetain (globals r))"
  by (simp add: shouldReallocate_def ParseBoolOrDefault_def ParseBool_def Annotations_def)

lemma shouldReallocate_parsed:
  "ParseBool (Annotations pod AnnotationIPRetain) = Some b \<Longrightarrow> shouldReallocate r pod = (\<not> b)"
  by (simp add: shouldReallocate_def ParseBoolOrDefault_def)

lemma shouldReallocate_true:
  "pod_Annotations pod AnnotationIPRetain = Some ''true'' \<Longrightarrow> \<not> shouldReallocate r pod"
  by (simp add: shouldReallocate_def ParseBoolOrDefault_def ParseBool_def Annotations_def)

lemma shouldReallocate_false:
  "pod_Annotations pod AnnotationIPRetain = Some ''false'' \<Longrightarrow> shouldReallocate r pod"
  by (simp add: shouldReallocate_def ParseBoolOrDefault_def ParseBool_def Annotations_def)

lemma release_loop_events: "e \<in> set (fst (release_loop r pod ips)) \<Longrightarrow> is_recycle e"
  by (induction ips) (auto simp: after_def Let_def split: if_splits option.splits)

lemma is_recycle_not_assign: "is_recycle e \<Longrightarrow> \<not> is_assign e"
  by (cases e) simp_all

lemma release_events: "e \<in> set (fst (release r pod ips)) \<Longrightarrow> \<not> is_assign e"
  by (auto simp: release_def case_prod_unfold split: option.splits
        dest!: release_loop_events is_recycle_not_assign)

lemma allocate_events: "e \<in> set (fst (allocate r pod n)) \<Longrightarrow> \<not> is_assign e \<and> \<not> is_recycle e"
  by (auto simp: allocate_def Let_def split: sum.splits option.splits if_splits
        simp del: PickFirstNonEmptyString.simps)

lemma assign_events: "e \<in> set (fst (assign r pod n c f)) \<Longrightarrow> \<not> is_recycle e"
  by (auto simp: assign_def Let_def split: sum.splits option.splits)

lemma multiAssign_events: "e \<in> set (fst (multiAssign r pod n fam c f)) \<Longrightarrow> \<not> is_recycle e"
  by (auto simp: multiAssign_def Let_def split: sum.splits option.splits)

lemma reallocate_events:
  "e \<in> set (fst (statefulAllocate_reallocate r pod n)) \<Longrightarrow> \<not> is_assign e"
  by (auto simp: statefulAllocate_reallocate_def after_def case_prod_unfold
        split: sum.splits option.splits if_splits
        dest: release_events allocate_events)

lemma reallocate_head:
  "\<exists>rest. fst (statefulAllocate_reallocate r pod n) = Call_ListAllocatedIPInstancesOfPod pod # rest"
  by (auto simp: statefulAllocate_reallocate_def after_def split: sum.splits)

lemma switch_reallocate:
  "fst (statefulAllocate_switch r pod n False True) = fst (statefulAllocate_reallocate r pod n)"
  by (simp add: statefulAllocate_switch_def case_prod_unfold)

lemma switch_reuse_events:
  "e \<in> set (fst (statefulAllocate_switch r pod n False False)) \<Longrightarrow> \<not> is_recycle e"
  by (auto simp: statefulAllocate_switch_def case_prod_unfold Let_def
        split: sum.splits if_splits
        dest: allocate_events assign_events multiAssign_events)

lemma switch_reuse_head:
  "\<exists>rest. fst (statefulAllocate_switch r pod n False False) =
     (if DualStackEnabled (globals r) then Call_ListIPsOfPod pod else Call_GetIPOfPod pod) # rest"
  by (auto simp: statefulAllocate_switch_def case_prod_unfold Let_def split: sum.splits)

lemma addFinalizer_events:
  "addFinalizer r pod = (fevs, pod', res) \<Longrightarrow> e \<in> set fevs \<Longrightarrow> \<not> is_assign e \<and> \<not> is_recycle e"
  by (auto simp: addFinalizer_def Let_def split: if_splits)

lemma statefulAllocate_events:
  assumes "Annotations pod AnnotationIPPool = []" "addFinalizer r pod = (fevs, pod', None)"
  shows "fst (statefulAllocate r pod n) =
           fevs @ fst (statefulAllocate_switch r pod' n False (shouldReallocate r pod)) @
           (if snd (snd (statefulAllocate_switch r pod' n False (shouldReallocate r pod)))
            then [Observe IPStatefulAllocateType
                    (fst (snd (statefulAllocate_switch r pod' n False (shouldReallocate r pod))) = None)]
            else [])"
  using assms by (simp add: statefulAllocate_def Let_def case_prod_unfold)

lemma statefulAllocate_path:
  assumes "Annotations pod AnnotationIPPool = []" "addFinalizer r pod = (fevs, pod', None)"
  shows "(\<exists>rest. fst (statefulAllocate r pod n) =
            fevs @ (if shouldReallocate r pod then Call_ListAllocatedIPInstancesOfPod pod'
                    else if DualStackEnabled (globals r) then Call_ListIPsOfPod pod'
                    else Call_GetIPOfPod pod') # rest)
       \<and> (\<forall>e \<in> set (fst (statefulAllocate r pod n)).
            if shouldReallocate r pod then \<not> is_assign e else \<not> is_recycle e)"
proof (cases "shouldReallocate r pod")
  case True
  from reallocate_head [of r pod' n] obtain rest
    where h: "fst (statefulAllocate_reallocate r pod' n) = Call_ListAllocatedIPInstancesOfPod pod' # rest"
    by blast
  show ?thesis
    using True h addFinalizer_events [OF assms(2)] reallocate_events [of _ r pod' n]
    unfolding statefulAllocate_events [OF assms] 
    by (auto simp: switch_reallocate)
next
  case False
  from switch_reuse_head [of r pod' n] obtain rest
    where h: "fst (statefulAllocate_switch r pod' n False False) =
     (if DualStackEnabled (globals r) then Call_ListIPsOfPod pod' else Call_GetIPOfPod pod') # rest"
    by blast
  show ?thesis
    using False h addFinalizer_events [OF assms(2)] switch_reuse_events [of _ r pod' n]
    unfolding statefulAllocate_events [OF assms]
    by (auto split: if_splits)
qed

subsection \<open>The concrete reconciler, field by field\<close>

lemma example_reconciler_simps [simp]:
  "IPAMManager (example_reconciler s p d rt st) = example_manager"
  "IPAMStore (example_reconciler s p d rt st) = s"
  "Client (example_reconciler s p d rt st) = example_api p"
  "globals (example_reconciler s p d rt st) = example_globals d rt st"
  by (simp_all add: example_reconciler_def)

lemma example_globals_simps [simp]:
  "DualStackEnabled (example_globals d rt st) = d"
  "DefaultIPRetain (example_globals d rt st) = rt"
  "OwnByStatefulWorkload (example_globals d rt st) p = st"
  "PodIsEvicted (example_globals d rt st) p = False"
  "PodIsCompleted (example_globals d rt st) p = False"
  "ParseIPFamilyFromString (example_globals d rt st) [] = ipamtypes_IPv4"
  "ParseNetworkTypeFromString (example_globals d rt st) [] = Underlay"
  "ParseNetworkTypeFromString (example_globals d rt st) ''Overlay'' = Overlay"
  by (simp_all add: example_globals_def)

lemma example_api_simps [simp]:
  "api_Get (example_api p) ns n = Inr p"
  "api_Patch (example_api p) q = None"
  "ListNetworks (example_api p) node = (if node = OverlayNodeName then Inr [''ov1''] else Inr [])"
  "ListAllocatedIPInstancesOfPod (example_api p) q = Inr []"
  "ListIPsOfPod (example_api p) q = Inr [''10.0.0.5'']"
  "GetIPOfPod (example_api p) q = Inr ''10.0.0.5''"
  by (simp_all add: example_api_def)

lemma example_manager_simps [simp]:
  "mgr_Allocate example_manager a b c d = Inr example_ip4"
  "mgr_Assign example_manager a b c d e f = Inr example_ip4"
  "mgr_Release example_manager a b c = Some (External ''release failed'')"
  "mgr_DualStack_Allocate example_manager fam a bs c d = Inr [example_ip4, example_ip6]"
  "mgr_DualStack_Assign example_manager fam a bs cs d e f = Inr [example_ip4, example_ip6]"
  "mgr_DualStack_Release example_manager fam a bs cs = Some (External ''release failed'')"
  by (simp_all add: example_manager_def)

lemma example_store_simps [simp]:
  "store_Couple example_store p i = None"
  "store_ReCouple example_store p i = None"
  "store_DeCouple example_store p = None"
  "store_IPReserve example_store p = None"
  "store_IPRecycle example_store n i = None"
  "store_DualStack_Couple example_store p is = None"
  "store_DualStack_ReCouple example_store p is = None"
  "store_DualStack_DeCouple example_store p = None"
  "store_DualStack_IPReserve example_store p = None"
  "store_DualStack_IPRecycle example_store n i = None"
  by (simp_all add: example_store_def)

lemma example_failing_store_simps [simp]:
  "store_Couple example_failing_store p i = Some (External ''conflict'')"
  "store_DualStack_Couple example_failing_store p is = Some (External ''conflict'')"
  "store_IPReserve example_failing_store p = Some (External ''conflict'')"
  "store_DualStack_IPReserve example_failing_store p = Some (External ''conflict'')"
  by (simp_all add: example_failing_store_def)

lemma example_pod_simps [simp]:
  "pod_Name example_pod = ''p1-0''"
  "pod_Namespace example_pod = ''ns''"
  "pod_UID example_pod = ''uid-1''"
  "pod_Annotations example_pod k = None"
  "pod_Labels example_pod k = None"
  "pod_Finalizers example_pod = []"
  "pod_DeletionTimestamp example_pod = None"
  "pod_NodeName example_pod = ''node1''"
  by (simp_all add: example_pod_def)

lemma example_retain_pod_simps [simp]:
  "pod_Annotations (example_retain_pod v) AnnotationIPRetain = Some v"
  "pod_Annotations (example_retain_pod v) AnnotationIPPool = None"
  by (simp_all add: example_retain_pod_def)

lemma example_ip_simps [simp]:
  "ip_Address example_ip4 = ''10.0.0.5''" "ip_Subnet example_ip4 = ''subnet4''"
  "ip_Network example_ip4 = ''ov1''"
  "ip_Address example_ip6 = ''fd00::5''" "ip_Subnet example_ip6 = ''subnet6''"
  "ip_Network example_ip6 = ''ov1''"
  by (simp_all add: example_ip4_def example_ip6_def)

subsection \<open>The claims\<close>

text \<open>
  C1. The reallocation decision of \<^verbatim>\<open>statefulAllocate\<close> follows the retention table: with
  the cluster default "retain", a pod whose retention annotation is unset or \<open>true\<close> keeps
  its address and one whose annotation is \<open>false\<close> is reallocated; with the cluster
  default "do not retain", unset or \<open>false\<close> reallocates and \<open>true\<close> keeps. An annotation
  that parses as a boolean always decides, and an absent one defers to the default. When
  no pre-assignment pool is given and the finalizer is in place, the function acts on
  the decision: after the finalizer it first lists the allocated instances (to recycle
  them) and never assigns when the decision is to reallocate, and it first looks up the
  pod's previous addresses and never recycles when the decision is to retain.
\<close>

theorem statefulAllocate_retention:
  "(DefaultIPRetain (globals r) \<and> pod_Annotations pod AnnotationIPRetain = None \<longrightarrow> \<not> shouldReallocate r pod)
   \<and> (DefaultIPRetain (globals r) \<and> pod_Annotations pod AnnotationIPRetain = Some ''true'' \<longrightarrow>
        \<not> shouldReallocate r pod)
   \<and> (DefaultIPRetain (globals r) \<and> pod_Annotations pod AnnotationIPRetain = Some ''false'' \<longrightarrow>
        shouldReallocate r pod)
   \<and> (\<not> DefaultIPRetain (globals r) \<and> pod_Annotations pod AnnotationIPRetain = None \<longrightarrow>
        shouldReallocate r pod)
   \<and> (\<not> DefaultIPRetain (globals r) \<and> pod_Annotations pod AnnotationIPRetain = Some ''false'' \<longrightarrow>
        shouldReallocate r pod)
   \<and> (\<not> DefaultIPRetain (globals r) \<and> pod_Annotations pod AnnotationIPRetain = Some ''true'' \<longrightarrow>
        \<not> shouldReallocate r pod)
   \<and> (ParseBool (Annotations pod AnnotationIPRetain) = Some b \<longrightarrow> shouldReallocate r pod = (\<not> b))
   \<and> (pod_Annotations pod AnnotationIPRetain = None \<longrightarrow>
        shouldReallocate r pod = (\<not> DefaultIPRetain (globals r)))
   \<and> (Annotations pod AnnotationIPPool = [] \<and> addFinalizer r pod = (fevs, pod', None) \<longrightarrow>
        (\<exists>rest. fst (statefulAllocate r pod networkName) =
           fevs @ (if shouldReallocate r pod then Call_ListAllocatedIPInstancesOfPod pod'
                   else if DualStackEnabled (globals r) then Call_ListIPsOfPod pod'
                   else Call_GetIPOfPod pod') # rest)
        \<and> (\<forall>e \<in> set (fst (statefulAllocate r pod networkName)).
              if shouldReallocate r pod then \<not> is_assign e else \<not> is_recycle e))"
proof (intro conjI impI)
  assume "Annotations pod AnnotationIPPool = [] \<and> addFinalizer r pod = (fevs, pod', None)"
  then have p: "Annotations pod AnnotationIPPool = []" and f: "addFinalizer r pod = (fevs, pod', None)"
    by simp_all
  from statefulAllocate_path [OF p f, of networkName]
  show "\<exists>rest. fst (statefulAllocate r pod networkName) =
           fevs @ (if shouldReallocate r pod then Call_ListAllocatedIPInstancesOfPod pod'
                   else if DualStackEnabled (globals r) then Call_ListIPsOfPod pod'
                   else Call_GetIPOfPod pod') # rest"
    by (rule conjunct1)
  from statefulAllocate_path [OF p f, of networkName]
  show "\<forall>e \<in> set (fst (statefulAllocate r pod networkName)).
              if shouldReallocate r pod then \<not> is_assign e else \<not> is_recycle e"
    by (rule conjunct2)
qed (simp_all add: shouldReallocate_absent shouldReallocate_true shouldReallocate_false
       shouldReallocate_parsed)

theorem statefulAllocate_retention_witness:
  "\<not> shouldReallocate (example_reconciler example_store example_pod False True True) example_pod
   \<and> \<not> shouldReallocate (example_reconciler example_store example_pod False True True)
         (example_retain_pod ''true'')
   \<and> shouldReallocate (example_reconciler example_store example_pod False True True)
         (example_retain_pod ''false'')
   \<and> shouldReallocate (example_reconciler example_store example_pod False False True) example_pod
   \<and> shouldReallocate (example_reconciler example_store example_pod False False True)
         (example_retain_pod ''false'')
   \<and> \<not> shouldReallocate (example_reconciler example_store example_pod False False True)
         (example_retain_pod ''true'')
   \<and> (\<exists>rest. fst (statefulAllocate (example_reconciler example_store example_pod False False True)
                    example_pod ''ov1'') =
          [Patch (example_pod\<lparr>pod_Finalizers := [FinalizerIPAllocated]\<rparr>),
           Call_ListAllocatedIPInstancesOfPod (example_pod\<lparr>pod_Finalizers := [FinalizerIPAllocated]\<rparr>)]
          @ rest)
   \<and> (\<exists>rest. fst (statefulAllocate (example_reconciler example_store example_pod False True True)
                    example_pod ''ov1'') =
          [Patch (example_pod\<lparr>pod_Finalizers := [FinalizerIPAllocated]\<rparr>),
           Call_GetIPOfPod (example_pod\<lparr>pod_Finalizers := [FinalizerIPAllocated]\<rparr>)]
          @ rest)"
proof -
  let ?keep = "example_reconciler example_store example_pod False True True"
  let ?drop = "example_reconciler example_store example_pod False False True"
  let ?pod' = "example_pod\<lparr>pod_Finalizers := [FinalizerIPAllocated]\<rparr>"
  have fin: "addFinalizer ?keep example_pod = ([Patch ?pod'], ?pod', None)"
    "addFinalizer ?drop example_pod = ([Patch ?pod'], ?pod', None)"
    by (simp_all add: addFinalizer_def Let_def)
  have pool: "Annotations example_pod AnnotationIPPool = []"
    by (simp add: Annotations_def)
  note k1 = statefulAllocate_retention [of ?keep example_pod True "[Patch ?pod']" ?pod' "''ov1''"]
  note k2 = statefulAllocate_retention [of ?keep "example_retain_pod ''true''" True]
  note k3 = statefulAllocate_retention [of ?keep "example_retain_pod ''false''" False]
  note d1 = statefulAllocate_retention [of ?drop example_pod True "[Patch ?pod']" ?pod' "''ov1''"]
  note d2 = statefulAllocate_retention [of ?drop "example_retain_pod ''false''" False]
  note d3 = statefulAllocate_retention [of ?drop "example_retain_pod ''true''" True]
  have a: "\<not> shouldReallocate ?keep example_pod" using k1 by simp
  have b: "\<not> shouldReallocate ?keep (example_retain_pod ''true'')" using k2 by simp
  have c: "shouldReallocate ?keep (example_retain_pod ''false'')" using k3 by simp
  have d: "shouldReallocate ?drop example_pod" using d1 by simp
  have e: "shouldReallocate ?drop (example_retain_pod ''false'')" using d2 by simp
  have f: "\<not> shouldReallocate ?drop (example_retain_pod ''true'')" using d3 by simp
  have g: "\<exists>rest. fst (statefulAllocate ?drop example_pod ''ov1'') =
          [Patch ?pod', Call_ListAllocatedIPInstancesOfPod ?pod'] @ rest"
    using d1 d fin pool by simp
  have h: "\<exists>rest. fst (statefulAllocate ?keep example_pod ''ov1'') =
          [Patch ?pod', Call_GetIPOfPod ?pod'] @ rest"
    using k1 a fin pool by simp
  from a b c d e f g h show ?thesis by blast
qed

text \<open>
  C2. In \<^verbatim>\<open>allocate\<close>, when the engine's allocation succeeds and the store's coupling
  fails, the events are exactly: the allocation, the coupling, one release that names
  the subnet and the address of every allocated IP (dual-stack) or of the one allocated
  IP (single-stack), and the latency observation of a failure; the error returned is the
  coupling error, wrapped. Whatever the release functions answer, \<^verbatim>\<open>allocate\<close> does and
  returns the same: a failing release is neither propagated nor put in place of the
  coupling error.
\<close>

theorem allocate_compensates:
  "(let ipFamilyMode = ParseIPFamilyFromString (globals r) (Annotations pod AnnotationIPFamily);
        subnetNameStr =
          PickFirstNonEmptyString [Annotations pod AnnotationSpecifiedSubnet, Labels pod LabelSpecifiedSubnet];
        subnetNames = (if length subnetNameStr > 0 then Split subnetNameStr CHR ''/'' else [])
    in DualStackEnabled (globals r) \<and>
       mgr_DualStack_Allocate (IPAMManager r) ipFamilyMode networkName subnetNames
         (pod_Name pod) (pod_Namespace pod) = Inr ips \<and>
       store_DualStack_Couple (IPAMStore r) pod ips = Some x
       \<longrightarrow>
       allocate r pod networkName =
         ([Manager_DualStack_Allocate ipFamilyMode networkName subnetNames (pod_Name pod) (pod_Namespace pod),
           Store_DualStack_Couple pod ips,
           Manager_DualStack_Release ipFamilyMode networkName (map ip_Subnet ips) (map ip_Address ips),
           Observe IPNormalAllocateType False],
          Some (Errorf ''unable to couple IPs with pod: %v'' [AErr x])))
   \<and>
   (let subnetName =
          PickFirstNonEmptyString [Annotations pod AnnotationSpecifiedSubnet, Labels pod LabelSpecifiedSubnet]
    in \<not> DualStackEnabled (globals r) \<and>
       mgr_Allocate (IPAMManager r) networkName subnetName (pod_Name pod) (pod_Namespace pod) = Inr ip \<and>
       store_Couple (IPAMStore r) pod ip = Some x
       \<longrightarrow>
       allocate r pod networkName =
         ([Manager_Allocate networkName subnetName (pod_Name pod) (pod_Namespace pod),
           Store_Couple pod ip,
           Manager_Release (ip_Network ip) (ip_Subnet ip) (ip_Address ip),
           Observe IPNormalAllocateType False],
          Some (Errorf ''unable to couple ip with pod: %v'' [AErr x])))
   \<and>
   allocate (r\<lparr>IPAMManager := (IPAMManager r)\<lparr>mgr_Release := rel, mgr_DualStack_Release := drel\<rparr>\<rparr>) pod networkName
     = allocate r pod networkName"
  unfolding Let_def
  apply (intro conjI impI)
  subgoal
    by (elim conjE)
       (simp add: allocate_def Let_def squashIPSliceToIPs_map squashIPSliceToSubnets_map
          del: PickFirstNonEmptyString.simps)
  subgoal
    by (elim conjE) (simp add: allocate_def Let_def del: PickFirstNonEmptyString.simps)
  subgoal
    by (simp add: allocate_def Let_def del: PickFirstNonEmptyString.simps
          cong: sum.case_cong option.case_cong if_cong)
  done

theorem allocate_compensates_witness:
  "allocate (example_reconciler example_failing_store example_pod True True False) example_pod ''ov1'' =
     ([Manager_DualStack_Allocate ipamtypes_IPv4 ''ov1'' [] ''p1-0'' ''ns'',
       Store_DualStack_Couple example_pod [example_ip4, example_ip6],
       Manager_DualStack_Release ipamtypes_IPv4 ''ov1'' [''subnet4'', ''subnet6''] [''10.0.0.5'', ''fd00::5''],
       Observe IPNormalAllocateType False],
      Some (Errorf ''unable to couple IPs with pod: %v'' [AErr (External ''conflict'')]))
   \<and>
   allocate (example_reconciler example_failing_store example_pod False True False) example_pod ''ov1'' =
     ([Manager_Allocate ''ov1'' [] ''p1-0'' ''ns'',
       Store_Couple example_pod example_ip4,
       Manager_Release ''ov1'' ''subnet4'' ''10.0.0.5'',
       Observe IPNormalAllocateType False],
      Some (Errorf ''unable to couple ip with pod: %v'' [AErr (External ''conflict'')]))"
proof
  show "allocate (example_reconciler example_failing_store example_pod True True False) example_pod ''ov1'' =
     ([Manager_DualStack_Allocate ipamtypes_IPv4 ''ov1'' [] ''p1-0'' ''ns'',
       Store_DualStack_Couple example_pod [example_ip4, example_ip6],
       Manager_DualStack_Release ipamtypes_IPv4 ''ov1'' [''subnet4'', ''subnet6''] [''10.0.0.5'', ''fd00::5''],
       Observe IPNormalAllocateType False],
      Some (Errorf ''unable to couple IPs with pod: %v'' [AErr (External ''conflict'')]))"
    using allocate_compensates [of "example_reconciler example_failing_store example_pod True True False"
      example_pod "''ov1''" "[example_ip4, example_ip6]" "External ''conflict''"]
    by (simp add: Annotations_def Labels_def Let_def)
  show "allocate (example_reconciler example_failing_store example_pod False True False) example_pod ''ov1'' =
     ([Manager_Allocate ''ov1'' [] ''p1-0'' ''ns'',
       Store_Couple example_pod example_ip4,
       Manager_Release ''ov1'' ''subnet4'' ''10.0.0.5'',
       Observe IPNormalAllocateType False],
      Some (Errorf ''unable to couple ip with pod: %v'' [AErr (External ''conflict'')]))"
    using allocate_compensates [of "example_reconciler example_failing_store example_pod False True False"
      example_pod "''ov1''" _ "External ''conflict''" example_ip4]
    by (simp add: Annotations_def Labels_def Let_def)
qed

text \<open>
  C3. When the pod that \<^verbatim>\<open>Reconcile\<close> fetches is not being deleted, is neither evicted nor
  completed and carries the assigned-address annotation, \<^verbatim>\<open>Reconcile\<close> returns success
  and its only event is the fetch: no call of the engine, none of the store.
\<close>

theorem Reconcile_fence:
  assumes "api_Get (Client r) namespace name = Inr pod"
    and "pod_DeletionTimestamp pod = None"
    and "\<not> PodIsEvicted (globals r) pod"
    and "\<not> PodIsCompleted (globals r) pod"
    and "HasAnnotation pod AnnotationIP"
  shows "Reconcile r namespace name = ([APIReader_Get namespace name], None)"
  using assms by (simp add: Reconcile_def Reconcile_pod_def Reconcile_defer_def)

theorem Reconcile_fence_witness:
  "Reconcile (example_reconciler example_store example_fenced_pod True True False) ''ns'' ''p1-0'' =
     ([APIReader_Get ''ns'' ''p1-0''], None)"
  by (rule Reconcile_fence [where pod = example_fenced_pod])
     (simp_all add: example_fenced_pod_def HasAnnotation_def)

text \<open>
  C5. \<^verbatim>\<open>selectNetwork\<close> only reads: each of its events is a network list. A network
  named by the pod's annotation is returned, else one named by its label, with no list
  at all. Otherwise the declared network type decides: Underlay lists by the pod's node
  name, Overlay and GlobalBGP by their sentinel node names, and each returns the name of
  the first network listed when it is not empty and an error when the list fails or
  finds none; any other type is an error without a list. A name that
  \<^verbatim>\<open>selectNetwork\<close> returns is never empty and is always the annotation's, the label's or
  the first of a list answer: there is no default network.
\<close>

theorem selectNetwork_priority:
  "(\<forall>e \<in> set (fst (selectNetwork r pod)). is_list_networks e)
   \<and> (Annotations pod AnnotationSpecifiedNetwork \<noteq> [] \<longrightarrow>
        selectNetwork r pod = ([], Inr (Annotations pod AnnotationSpecifiedNetwork)))
   \<and> (Annotations pod AnnotationSpecifiedNetwork = [] \<and> Labels pod LabelSpecifiedNetwork \<noteq> [] \<longrightarrow>
        selectNetwork r pod = ([], Inr (Labels pod LabelSpecifiedNetwork)))
   \<and> (Annotations pod AnnotationSpecifiedNetwork = [] \<and> Labels pod LabelSpecifiedNetwork = [] \<longrightarrow>
        (let networkType =
               ParseNetworkTypeFromString (globals r)
                 (PickFirstNonEmptyString [Annotations pod AnnotationNetworkType, Labels pod LabelNetworkType]);
             nodeName = (case networkType of Underlay \<Rightarrow> pod_NodeName pod | Overlay \<Rightarrow> OverlayNodeName
                         | GlobalBGP \<Rightarrow> GlobalBGPNodeName | OtherNetworkType t \<Rightarrow> [])
         in case networkType of
              OtherNetworkType t \<Rightarrow>
                selectNetwork r pod =
                  ([], Inl (Errorf ''unknown network type %s from pod'' [ANetworkType networkType]))
            | _ \<Rightarrow>
                fst (selectNetwork r pod) = [Call_ListNetworks nodeName] \<and>
                (case ListNetworks (Client r) nodeName of
                   Inr (n # rest) \<Rightarrow>
                     (if n \<noteq> [] then snd (selectNetwork r pod) = Inr n else isl (snd (selectNetwork r pod)))
                 | Inr [] \<Rightarrow> isl (snd (selectNetwork r pod))
                 | Inl x \<Rightarrow> isl (snd (selectNetwork r pod)))))
   \<and> (\<forall>n. snd (selectNetwork r pod) = Inr n \<longrightarrow>
          n \<noteq> [] \<and>
          (n = Annotations pod AnnotationSpecifiedNetwork \<or> n = Labels pod LabelSpecifiedNetwork \<or>
           (\<exists>nodeName rest. ListNetworks (Client r) nodeName = Inr (n # rest))))"
proof (intro conjI ballI impI allI)
  fix e assume "e \<in> set (fst (selectNetwork r pod))"
  then show "is_list_networks e" by (rule selectNetwork_read_only)
next
  assume "Annotations pod AnnotationSpecifiedNetwork \<noteq> []"
  then show "selectNetwork r pod = ([], Inr (Annotations pod AnnotationSpecifiedNetwork))"
    by (rule selectNetwork_annotation)
next
  assume "Annotations pod AnnotationSpecifiedNetwork = [] \<and> Labels pod LabelSpecifiedNetwork \<noteq> []"
  then show "selectNetwork r pod = ([], Inr (Labels pod LabelSpecifiedNetwork))"
    by (simp add: selectNetwork_label)
next
  assume "Annotations pod AnnotationSpecifiedNetwork = [] \<and> Labels pod LabelSpecifiedNetwork = []"
  then have a: "Annotations pod AnnotationSpecifiedNetwork = []" and l: "Labels pod LabelSpecifiedNetwork = []"
    by simp_all
  show "let networkType =
               ParseNetworkTypeFromString (globals r)
                 (PickFirstNonEmptyString [Annotations pod AnnotationNetworkType, Labels pod LabelNetworkType]);
             nodeName = (case networkType of Underlay \<Rightarrow> pod_NodeName pod | Overlay \<Rightarrow> OverlayNodeName
                         | GlobalBGP \<Rightarrow> GlobalBGPNodeName | OtherNetworkType t \<Rightarrow> [])
         in case networkType of
              OtherNetworkType t \<Rightarrow>
                selectNetwork r pod =
                  ([], Inl (Errorf ''unknown network type %s from pod'' [ANetworkType networkType]))
            | _ \<Rightarrow>
                fst (selectNetwork r pod) = [Call_ListNetworks nodeName] \<and>
                (case ListNetworks (Client r) nodeName of
                   Inr (n # rest) \<Rightarrow>
                     (if n \<noteq> [] then snd (selectNetwork r pod) = Inr n else isl (snd (selectNetwork r pod)))
                 | Inr [] \<Rightarrow> isl (snd (selectNetwork r pod))
                 | Inl x \<Rightarrow> isl (snd (selectNetwork r pod)))"
    by (rule selectNetwork_by_type [OF a l])
next
  fix n assume "snd (selectNetwork r pod) = Inr n"
  from selectNetwork_no_default [OF this] show "n \<noteq> []" by (rule conjunct1)
next
  fix n assume "snd (selectNetwork r pod) = Inr n"
  from selectNetwork_no_default [OF this]
  show "n = Annotations pod AnnotationSpecifiedNetwork \<or> n = Labels pod LabelSpecifiedNetwork \<or>
           (\<exists>nodeName rest. ListNetworks (Client r) nodeName = Inr (n # rest))"
    by (rule conjunct2)
qed

theorem selectNetwork_priority_witness:
  "selectNetwork (example_reconciler example_store example_pod False True False)
     (example_pod\<lparr>pod_Annotations := [AnnotationSpecifiedNetwork \<mapsto> ''net-a''],
                  pod_Labels := [LabelSpecifiedNetwork \<mapsto> ''net-l'']\<rparr>) = ([], Inr ''net-a'')
   \<and> selectNetwork (example_reconciler example_store example_pod False True False)
     (example_pod\<lparr>pod_Labels := [LabelSpecifiedNetwork \<mapsto> ''net-l'']\<rparr>) = ([], Inr ''net-l'')
   \<and> selectNetwork (example_reconciler example_store example_pod False True False)
     (example_pod\<lparr>pod_Annotations := [AnnotationNetworkType \<mapsto> ''Overlay'']\<rparr>) =
       ([Call_ListNetworks OverlayNodeName], Inr ''ov1'')
   \<and> isl (snd (selectNetwork (example_reconciler example_store example_pod False True False) example_pod))
   \<and> fst (selectNetwork (example_reconciler example_store example_pod False True False) example_pod) =
       [Call_ListNetworks ''node1'']"
proof -
  let ?r = "example_reconciler example_store example_pod False True False"
  let ?pa = "example_pod\<lparr>pod_Annotations := [AnnotationSpecifiedNetwork \<mapsto> ''net-a''],
                  pod_Labels := [LabelSpecifiedNetwork \<mapsto> ''net-l'']\<rparr>"
  let ?pl = "example_pod\<lparr>pod_Labels := [LabelSpecifiedNetwork \<mapsto> ''net-l'']\<rparr>"
  let ?po = "example_pod\<lparr>pod_Annotations := [AnnotationNetworkType \<mapsto> ''Overlay'']\<rparr>"
  have a: "selectNetwork ?r ?pa = ([], Inr ''net-a'')"
    using selectNetwork_priority [of ?r ?pa] by (simp add: Annotations_def Labels_def)
  have b: "selectNetwork ?r ?pl = ([], Inr ''net-l'')"
    using selectNetwork_priority [of ?r ?pl] by (simp add: Annotations_def Labels_def)
  have c: "selectNetwork ?r ?po = ([Call_ListNetworks OverlayNodeName], Inr ''ov1'')"
    using selectNetwork_priority [of ?r ?po]
    by (simp add: Annotations_def Labels_def Let_def prod_eq_iff)
  have d: "isl (snd (selectNetwork ?r example_pod)) \<and>
           fst (selectNetwork ?r example_pod) = [Call_ListNetworks ''node1'']"
    using selectNetwork_priority [of ?r example_pod]
    by (simp add: Annotations_def Labels_def Let_def OverlayNodeName_def)
  from a b c d show ?thesis by blast
qed

text \<open>
  C7 (as amended). For a pod with a deletion timestamp that a stateful workload owns,
  \<^verbatim>\<open>Reconcile\<close> calls the store's reserve operation first. When the reservation succeeds
  it then removes the allocation finalizer (a patch of the pod, when the pod carries the
  finalizer); when the reservation fails it returns the wrapped error and sends no patch,
  so the finalizer stays. In both cases the reserve call is its only store call (no
  decouple) and it calls the engine not at all (no release). For a pod with a deletion
  timestamp that no stateful workload owns, \<^verbatim>\<open>Reconcile\<close> does nothing after the fetch.
  For a pod without a deletion timestamp that is evicted or completed, \<^verbatim>\<open>Reconcile\<close>
  calls decouple, which is its only store call, and calls the engine not at all.
\<close>

theorem Reconcile_terminating_pod:
  assumes "api_Get (Client r) namespace name = Inr pod"
  shows
    "(pod_DeletionTimestamp pod \<noteq> None \<and> OwnByStatefulWorkload (globals r) pod \<longrightarrow>
        (let call = (if DualStackEnabled (globals r) then Store_DualStack_IPReserve pod
                     else Store_IPReserve pod);
             reserved = (if DualStackEnabled (globals r) then store_DualStack_IPReserve (IPAMStore r) pod
                         else store_IPReserve (IPAMStore r) pod);
             pod' = pod\<lparr>pod_Finalizers := filter (\<lambda>f. f \<noteq> FinalizerIPAllocated) (pod_Finalizers pod)\<rparr>;
             patched = wrapError ''unable to remote finalizer'' (api_Patch (Client r) pod')
         in (case reserved of
               Some x \<Rightarrow>
                 (let e = Errorf ''%s: %v'' [AStr ''unable to reserve pod'',
                            AErr (Errorf ''unable to reserve ips for pod: %v'' [AErr x])]
                  in Reconcile r namespace name =
                       ([APIReader_Get namespace name, call] @ Reconcile_defer pod (Some e), Some e))
             | None \<Rightarrow>
                 Reconcile r namespace name =
                   (if FinalizerIPAllocated \<in> set (pod_Finalizers pod)
                    then ([APIReader_Get namespace name, call,
                           Recorder_Event pod EventTypeNormal ReasonIPReserveSucceed
                             ''reserve all IPs successfully'' [],
                           Patch pod'] @ Reconcile_defer pod' patched, patched)
                    else ([APIReader_Get namespace name, call,
                           Recorder_Event pod EventTypeNormal ReasonIPReserveSucceed
                             ''reserve all IPs successfully'' []], None)))
            \<and> (\<forall>e \<in> set (fst (Reconcile r namespace name)).
                  \<not> is_engine_call e \<and> (is_store_call e \<longrightarrow> e = call))))
     \<and>
     (pod_DeletionTimestamp pod \<noteq> None \<and> \<not> OwnByStatefulWorkload (globals r) pod \<longrightarrow>
        Reconcile r namespace name = ([APIReader_Get namespace name], None))
     \<and>
     (pod_DeletionTimestamp pod = None \<and> (PodIsEvicted (globals r) pod \<or> PodIsCompleted (globals r) pod) \<longrightarrow>
        (let call = (if DualStackEnabled (globals r) then Store_DualStack_DeCouple pod else Store_DeCouple pod)
         in (\<exists>rest. fst (Reconcile r namespace name) = APIReader_Get namespace name # call # rest)
            \<and> (\<forall>e \<in> set (fst (Reconcile r namespace name)).
                  \<not> is_engine_call e \<and> (is_store_call e \<longrightarrow> e = call))))"
proof (intro conjI impI)
  assume a: "pod_DeletionTimestamp pod \<noteq> None \<and> OwnByStatefulWorkload (globals r) pod"
  show "(let call = (if DualStackEnabled (globals r) then Store_DualStack_IPReserve pod
                     else Store_IPReserve pod);
             reserved = (if DualStackEnabled (globals r) then store_DualStack_IPReserve (IPAMStore r) pod
                         else store_IPReserve (IPAMStore r) pod);
             pod' = pod\<lparr>pod_Finalizers := filter (\<lambda>f. f \<noteq> FinalizerIPAllocated) (pod_Finalizers pod)\<rparr>;
             patched = wrapError ''unable to remote finalizer'' (api_Patch (Client r) pod')
         in (case reserved of
               Some x \<Rightarrow>
                 (let e = Errorf ''%s: %v'' [AStr ''unable to reserve pod'',
                            AErr (Errorf ''unable to reserve ips for pod: %v'' [AErr x])]
                  in Reconcile r namespace name =
                       ([APIReader_Get namespace name, call] @ Reconcile_defer pod (Some e), Some e))
             | None \<Rightarrow>
                 Reconcile r namespace name =
                   (if FinalizerIPAllocated \<in> set (pod_Finalizers pod)
                    then ([APIReader_Get namespace name, call,
                           Recorder_Event pod EventTypeNormal ReasonIPReserveSucceed
                             ''reserve all IPs successfully'' [],
                           Patch pod'] @ Reconcile_defer pod' patched, patched)
                    else ([APIReader_Get namespace name, call,
                           Recorder_Event pod EventTypeNormal ReasonIPReserveSucceed
                             ''reserve all IPs successfully'' []], None)))
            \<and> (\<forall>e \<in> set (fst (Reconcile r namespace name)).
                  \<not> is_engine_call e \<and> (is_store_call e \<longrightarrow> e = call)))"
    unfolding Let_def
  proof (intro conjI ballI)
    show "case if DualStackEnabled (globals r) then store_DualStack_IPReserve (IPAMStore r) pod
               else store_IPReserve (IPAMStore r) pod of
          None \<Rightarrow>
            Reconcile r namespace name =
              (if FinalizerIPAllocated \<in> set (pod_Finalizers pod)
               then ([APIReader_Get namespace name,
                      if DualStackEnabled (globals r) then Store_DualStack_IPReserve pod else Store_IPReserve pod,
                      Recorder_Event pod EventTypeNormal ReasonIPReserveSucceed
                        ''reserve all IPs successfully'' [],
                      Patch (pod\<lparr>pod_Finalizers := filter (\<lambda>f. f \<noteq> FinalizerIPAllocated) (pod_Finalizers pod)\<rparr>)]
                     @ Reconcile_defer (pod\<lparr>pod_Finalizers := filter (\<lambda>f. f \<noteq> FinalizerIPAllocated) (pod_Finalizers pod)\<rparr>)
                         (wrapError ''unable to remote finalizer''
                            (api_Patch (Client r) (pod\<lparr>pod_Finalizers := filter (\<lambda>f. f \<noteq> FinalizerIPAllocated) (pod_Finalizers pod)\<rparr>))),
                     wrapError ''unable to remote finalizer''
                       (api_Patch (Client r) (pod\<lparr>pod_Finalizers := filter (\<lambda>f. f \<noteq> FinalizerIPAllocated) (pod_Finalizers pod)\<rparr>)))
               else ([APIReader_Get namespace name,
                      if DualStackEnabled (globals r) then Store_DualStack_IPReserve pod else Store_IPReserve pod,
                      Recorder_Event pod EventTypeNormal ReasonIPReserveSucceed
                        ''reserve all IPs successfully'' []], None))
        | Some x \<Rightarrow>
            Reconcile r namespace name =
              ([APIReader_Get namespace name,
                if DualStackEnabled (globals r) then Store_DualStack_IPReserve pod else Store_IPReserve pod]
               @ Reconcile_defer pod
                   (Some (Errorf ''%s: %v'' [AStr ''unable to reserve pod'',
                            AErr (Errorf ''unable to reserve ips for pod: %v'' [AErr x])])),
               Some (Errorf ''%s: %v'' [AStr ''unable to reserve pod'',
                       AErr (Errorf ''unable to reserve ips for pod: %v'' [AErr x])]))"
    proof (cases "if DualStackEnabled (globals r) then store_DualStack_IPReserve (IPAMStore r) pod
                  else store_IPReserve (IPAMStore r) pod")
      case None
      with a assms Reconcile_reserve_succeeds [OF assms _ _ None refl refl] show ?thesis
        by simp
    next
      case (Some x)
      with a assms Reconcile_reserve_fails [OF assms _ _ Some refl] show ?thesis
        by simp
    qed
  next
    fix e assume "e \<in> set (fst (Reconcile r namespace name))"
    with a assms Reconcile_deleting_kinds [of r namespace name pod e]
    show "\<not> is_engine_call e" by blast
  next
    fix e assume "e \<in> set (fst (Reconcile r namespace name))"
    with a assms Reconcile_deleting_kinds [of r namespace name pod e]
    show "is_store_call e \<longrightarrow>
          e = (if DualStackEnabled (globals r) then Store_DualStack_IPReserve pod else Store_IPReserve pod)"
      by blast
  qed
next
  assume "pod_DeletionTimestamp pod \<noteq> None \<and> \<not> OwnByStatefulWorkload (globals r) pod"
  with assms show "Reconcile r namespace name = ([APIReader_Get namespace name], None)"
    by (simp add: Reconcile_deleting_stateless)
next
  assume a: "pod_DeletionTimestamp pod = None \<and> (PodIsEvicted (globals r) pod \<or> PodIsCompleted (globals r) pod)"
  then have d: "pod_DeletionTimestamp pod = None"
    and ev: "PodIsEvicted (globals r) pod \<or> PodIsCompleted (globals r) pod"
    by simp_all
  show "let call = (if DualStackEnabled (globals r) then Store_DualStack_DeCouple pod else Store_DeCouple pod)
        in (\<exists>rest. fst (Reconcile r namespace name) = APIReader_Get namespace name # call # rest)
           \<and> (\<forall>e \<in> set (fst (Reconcile r namespace name)).
                 \<not> is_engine_call e \<and> (is_store_call e \<longrightarrow> e = call))"
    unfolding Let_def
  proof (intro conjI ballI)
    show "\<exists>rest. fst (Reconcile r namespace name) =
            APIReader_Get namespace name #
            (if DualStackEnabled (globals r) then Store_DualStack_DeCouple pod else Store_DeCouple pod) # rest"
      using Reconcile_decouples [OF assms d ev refl refl] by simp
  next
    fix e assume "e \<in> set (fst (Reconcile r namespace name))"
    with Reconcile_decouple_kinds [OF assms d ev]
    show "\<not> is_engine_call e" by blast
  next
    fix e assume "e \<in> set (fst (Reconcile r namespace name))"
    with Reconcile_decouple_kinds [OF assms d ev]
    show "is_store_call e \<longrightarrow>
          e = (if DualStackEnabled (globals r) then Store_DualStack_DeCouple pod else Store_DeCouple pod)"
      by blast
  qed
qed

theorem Reconcile_terminating_pod_witness:
  "Reconcile (example_reconciler example_store example_deleting_pod False True True) ''ns'' ''p1-0'' =
     ([APIReader_Get ''ns'' ''p1-0'',
       Store_IPReserve example_deleting_pod,
       Recorder_Event example_deleting_pod EventTypeNormal ReasonIPReserveSucceed
         ''reserve all IPs successfully'' [],
       Patch (example_deleting_pod\<lparr>pod_Finalizers := []\<rparr>)],
      None)
   \<and> Reconcile (example_reconciler example_store example_deleting_pod False True False) ''ns'' ''p1-0'' =
       ([APIReader_Get ''ns'' ''p1-0''], None)
   \<and> (\<exists>rest. fst (Reconcile
          ((example_reconciler example_store example_pod False True False)
             \<lparr>globals := (example_globals False True False)\<lparr>PodIsCompleted := (\<lambda>pod. True)\<rparr>\<rparr>)
          ''ns'' ''p1-0'') =
        APIReader_Get ''ns'' ''p1-0'' # Store_DeCouple example_pod # rest)"
proof -
  let ?r1 = "example_reconciler example_store example_deleting_pod False True True"
  let ?r2 = "example_reconciler example_store example_deleting_pod False True False"
  let ?r3 = "(example_reconciler example_store example_pod False True False)
             \<lparr>globals := (example_globals False True False)\<lparr>PodIsCompleted := (\<lambda>pod. True)\<rparr>\<rparr>"
  have del: "pod_DeletionTimestamp example_deleting_pod \<noteq> None"
    "pod_Finalizers example_deleting_pod = [FinalizerIPAllocated]"
    by (simp_all add: example_deleting_pod_def)
  have g1: "api_Get (Client ?r1) ''ns'' ''p1-0'' = Inr example_deleting_pod" by simp
  have p1: "pod_DeletionTimestamp example_deleting_pod \<noteq> None \<and>
            OwnByStatefulWorkload (globals ?r1) example_deleting_pod"
    using del by simp
  note t1 = Reconcile_terminating_pod [OF g1, THEN conjunct1, THEN mp, OF p1, unfolded Let_def,
              THEN conjunct1]
  have a: "Reconcile ?r1 ''ns'' ''p1-0'' =
     ([APIReader_Get ''ns'' ''p1-0'',
       Store_IPReserve example_deleting_pod,
       Recorder_Event example_deleting_pod EventTypeNormal ReasonIPReserveSucceed
         ''reserve all IPs successfully'' [],
       Patch (example_deleting_pod\<lparr>pod_Finalizers := []\<rparr>)],
      None)"
    using t1 del by (simp add: wrapError_def Reconcile_defer_def)
  have g2: "api_Get (Client ?r2) ''ns'' ''p1-0'' = Inr example_deleting_pod" by simp
  have p2: "pod_DeletionTimestamp example_deleting_pod \<noteq> None \<and>
            \<not> OwnByStatefulWorkload (globals ?r2) example_deleting_pod"
    using del by simp
  have b: "Reconcile ?r2 ''ns'' ''p1-0'' = ([APIReader_Get ''ns'' ''p1-0''], None)"
    by (rule Reconcile_terminating_pod [OF g2, THEN conjunct2, THEN conjunct1, THEN mp, OF p2])
  have g3: "api_Get (Client ?r3) ''ns'' ''p1-0'' = Inr example_pod" by simp
  have p3: "pod_DeletionTimestamp example_pod = None \<and>
            (PodIsEvicted (globals ?r3) example_pod \<or> PodIsCompleted (globals ?r3) example_pod)"
    by simp
  note t3 = Reconcile_terminating_pod [OF g3, THEN conjunct2, THEN conjunct2, THEN mp, OF p3,
              unfolded Let_def, THEN conjunct1]
  have c: "\<exists>rest. fst (Reconcile ?r3 ''ns'' ''p1-0'') =
        APIReader_Get ''ns'' ''p1-0'' # Store_DeCouple example_pod # rest"
    using t3 by simp
  from a b c show ?thesis by blast
qed

text \<open>
  C7 as stated fails when the reservation fails: the pod is being deleted, a stateful
  workload owns it and it carries the finalizer, and yet \<^verbatim>\<open>Reconcile\<close> sends no patch:
  after the failed reserve call it only logs and records the error.
\<close>

theorem Reconcile_reserve_failure_counterexample:
  "pod_DeletionTimestamp example_deleting_pod \<noteq> None
   \<and> OwnByStatefulWorkload
       (globals (example_reconciler example_failing_store example_deleting_pod False True True))
       example_deleting_pod
   \<and> FinalizerIPAllocated \<in> set (pod_Finalizers example_deleting_pod)
   \<and> Reconcile (example_reconciler example_failing_store example_deleting_pod False True True)
       ''ns'' ''p1-0'' =
     ([APIReader_Get ''ns'' ''p1-0'',
       Store_IPReserve example_deleting_pod,
       Log_Error (Errorf ''%s: %v'' [AStr ''unable to reserve pod'',
                    AErr (Errorf ''unable to reserve ips for pod: %v'' [AErr (External ''conflict'')])]),
       Recorder_Event example_deleting_pod EventTypeWarning ReasonIPAllocationFail ''%v''
         [AErr (Errorf ''%s: %v'' [AStr ''unable to reserve pod'',
                  AErr (Errorf ''unable to reserve ips for pod: %v'' [AErr (External ''conflict'')])])]],
      Some (Errorf ''%s: %v'' [AStr ''unable to reserve pod'',
              AErr (Errorf ''unable to reserve ips for pod: %v'' [AErr (External ''conflict'')])]))"
proof -
  have del: "pod_DeletionTimestamp example_deleting_pod \<noteq> None"
    "pod_Finalizers example_deleting_pod = [FinalizerIPAllocated]"
    "pod_UID example_deleting_pod = ''uid-1''"
    by (simp_all add: example_deleting_pod_def)
  show ?thesis
    using del
    by (simp add: Reconcile_def Reconcile_pod_def Reconcile_defer_def reserve_def wrapError_def)
qed

end
